theory Spec2Isabelle
  imports Complex_Main
begin

section \<open>Python values, errors and binary64 floats\<close>

text \<open>
  The scoring functions of \<^verbatim>\<open>app.py\<close> compute with Python integers (unbounded,
  modelled as \<^typ>\<open>int\<close>) and Python floats (IEEE 754 binary64). A finite float is
  modelled by the rational number it denotes; every float operation is the exact
  rational operation followed by rounding to the nearest binary64 value, ties to even.
  Signed zeros are identified (no result of the program depends on the sign of a zero).
  Strings are lists of \<^typ>\<open>char\<close>, read as the code points 0 to 255.
\<close>

datatype py_error = ValueError | TypeError | OverflowError | ZeroDivisionError

datatype pyval = PNone | PInt int | PStr string

datatype pyfloat = Fin rat | PInf | NInf | NaN

text \<open>A raised exception is \<open>Inl\<close>; \<open>and_then\<close> sequences two computations, the second
  one skipped when the first raises.\<close>

fun and_then :: "py_error + 'a \<Rightarrow> ('a \<Rightarrow> py_error + 'b) \<Rightarrow> py_error + 'b" where
  "and_then (Inl e) f = Inl e"
| "and_then (Inr v) f = f v"

subsection \<open>Rounding\<close>

text \<open>Round to the nearest integer, ties to the even one: Python's one-argument
  \<^verbatim>\<open>round\<close> on a float, and the rounding of a binary64 significand.\<close>

definition round_half_even :: "rat \<Rightarrow> int" where
  "round_half_even x =
     (let f = \<lfloor>x\<rfloor>; d = x - of_int f
      in if d < 1 / 2 then f else if 1 / 2 < d then f + 1
         else if even f then f else f + 1)"

text \<open>The binary exponent of a positive rational: the \<open>e\<close> with \<open>2^e \<le> x < 2^(e+1)\<close>.\<close>

function binary_exponent :: "rat \<Rightarrow> int" where
  "binary_exponent x =
     (if x \<le> 0 then 0
      else if 2 \<le> x then binary_exponent (x / 2) + 1
      else if x < 1 then binary_exponent (x * 2) - 1
      else 0)"
  by pat_completeness auto
termination
proof (relation "measure (\<lambda>x. 2 * nat \<lceil>1 / x\<rceil> + nat \<lfloor>x\<rfloor>)")
  show "wf (measure (\<lambda>x::rat. 2 * nat \<lceil>1 / x\<rceil> + nat \<lfloor>x\<rfloor>))" by simp
next
  fix x :: rat
  assume a: "\<not> x \<le> 0" "2 \<le> x"
  have c1: "\<lceil>1 / x\<rceil> = 1" using a by (simp add: ceiling_eq_iff)
  have c2: "\<lceil>1 / (x / 2)\<rceil> = 1" using a by (simp add: ceiling_eq_iff)
  have "\<lfloor>x / 2\<rfloor> < \<lfloor>x\<rfloor>" using a by linarith
  moreover have "0 < \<lfloor>x\<rfloor>" using a by linarith
  ultimately show "(x / 2, x) \<in> measure (\<lambda>x. 2 * nat \<lceil>1 / x\<rceil> + nat \<lfloor>x\<rfloor>)"
    using c1 c2 by simp
next
  fix x :: rat
  assume a: "\<not> x \<le> 0" "\<not> 2 \<le> x" "x < 1"
  have f1: "\<lfloor>x * 2\<rfloor> \<le> 1" using a by linarith
  define y where "y = 1 / x"
  have y: "1 < y" using a by (simp add: y_def)
  have y2: "1 / (x * 2) = y / 2" by (simp add: y_def)
  have n2: "2 \<le> \<lceil>y\<rceil>" using y by linarith
  have "y / 2 \<le> of_int \<lceil>y\<rceil> / 2" by simp
  also have "\<dots> \<le> of_int (\<lceil>y\<rceil> - 1)" using n2 by simp
  finally have "\<lceil>y / 2\<rceil> \<le> \<lceil>y\<rceil> - 1" by (simp only: ceiling_le_iff)
  then have c: "\<lceil>1 / (x * 2)\<rceil> < \<lceil>1 / x\<rceil>" unfolding y2 y_def by simp
  have p: "0 < \<lceil>1 / x\<rceil>" using n2 unfolding y_def by linarith
  have A: "nat \<lceil>1 / (x * 2)\<rceil> < nat \<lceil>1 / x\<rceil>" using c p by linarith
  have F: "nat \<lfloor>x * 2\<rfloor> \<le> 1" using f1 by linarith
  have "2 * nat \<lceil>1 / (x * 2)\<rceil> + nat \<lfloor>x * 2\<rfloor> < 2 * nat \<lceil>1 / x\<rceil> + nat \<lfloor>x\<rfloor>"
    using A F by linarith
  then show "(x * 2, x) \<in> measure (\<lambda>x. 2 * nat \<lceil>1 / x\<rceil> + nat \<lfloor>x\<rfloor>)"
    by simp
qed

declare binary_exponent.simps [simp del]

text \<open>
  \<open>fl x\<close> is \<open>x\<close> rounded to 53 significant bits (to a multiple of \<open>2^-1074\<close> in the
  subnormal range), ties to even, with unbounded exponent above; \<open>fpack\<close> is the
  binary64 result, with overflow to an infinity once the rounded magnitude reaches
  \<open>2^1024\<close>.
\<close>

definition fl :: "rat \<Rightarrow> rat" where
  "fl x =
     (if x = 0 then 0
      else let q = max (binary_exponent \<bar>x\<bar> - 52) (- 1074)
           in of_int (round_half_even (x / 2 powi q)) * 2 powi q)"

definition fpack :: "rat \<Rightarrow> pyfloat" where
  "fpack x =
     (let r = fl x
      in if 2 ^ 1024 \<le> r then PInf else if r \<le> - (2 ^ 1024) then NInf else Fin r)"

text \<open>A float literal \<^verbatim>\<open>0.3\<close> is the binary64 value nearest to the decimal.\<close>

definition lit :: "rat \<Rightarrow> pyfloat" where
  "lit d = fpack d"

subsection \<open>Float operations\<close>

fun fadd :: "pyfloat \<Rightarrow> pyfloat \<Rightarrow> pyfloat" where
  "fadd (Fin a) (Fin b) = fpack (a + b)"
| "fadd NaN _ = NaN"
| "fadd _ NaN = NaN"
| "fadd PInf NInf = NaN"
| "fadd NInf PInf = NaN"
| "fadd PInf _ = PInf"
| "fadd NInf _ = NInf"
| "fadd _ PInf = PInf"
| "fadd _ NInf = NInf"

fun fmul :: "pyfloat \<Rightarrow> pyfloat \<Rightarrow> pyfloat" where
  "fmul (Fin a) (Fin b) = fpack (a * b)"
| "fmul NaN _ = NaN"
| "fmul _ NaN = NaN"
| "fmul PInf (Fin b) = (if b = 0 then NaN else if 0 < b then PInf else NInf)"
| "fmul NInf (Fin b) = (if b = 0 then NaN else if 0 < b then NInf else PInf)"
| "fmul (Fin a) PInf = (if a = 0 then NaN else if 0 < a then PInf else NInf)"
| "fmul (Fin a) NInf = (if a = 0 then NaN else if 0 < a then NInf else PInf)"
| "fmul PInf PInf = PInf"
| "fmul NInf NInf = PInf"
| "fmul PInf NInf = NInf"
| "fmul NInf PInf = NInf"

text \<open>Float division raises \<^verbatim>\<open>ZeroDivisionError\<close> on a zero divisor.\<close>

fun fdiv :: "pyfloat \<Rightarrow> pyfloat \<Rightarrow> py_error + pyfloat" where
  "fdiv (Fin a) (Fin b) = (if b = 0 then Inl ZeroDivisionError else Inr (fpack (a / b)))"
| "fdiv PInf (Fin b) =
     (if b = 0 then Inl ZeroDivisionError else Inr (if 0 < b then PInf else NInf))"
| "fdiv NInf (Fin b) =
     (if b = 0 then Inl ZeroDivisionError else Inr (if 0 < b then NInf else PInf))"
| "fdiv NaN (Fin b) = (if b = 0 then Inl ZeroDivisionError else Inr NaN)"
| "fdiv _ NaN = Inr NaN"
| "fdiv (Fin a) _ = Inr (Fin 0)"
| "fdiv _ _ = Inr NaN"

text \<open>Comparison; every comparison with a NaN is false.\<close>

fun flt :: "pyfloat \<Rightarrow> pyfloat \<Rightarrow> bool" where
  "flt (Fin a) (Fin b) = (a < b)"
| "flt NaN _ = False"
| "flt _ NaN = False"
| "flt NInf NInf = False"
| "flt NInf _ = True"
| "flt _ NInf = False"
| "flt PInf _ = False"
| "flt _ PInf = True"

fun fle :: "pyfloat \<Rightarrow> pyfloat \<Rightarrow> bool" where
  "fle (Fin a) (Fin b) = (a \<le> b)"
| "fle NaN _ = False"
| "fle _ NaN = False"
| "fle NInf _ = True"
| "fle _ PInf = True"
| "fle _ _ = False"

text \<open>\<^verbatim>\<open>min(a, b)\<close> and \<^verbatim>\<open>max(a, b)\<close> keep the first argument unless the second is
  strictly smaller (greater).\<close>

definition pymin :: "pyfloat \<Rightarrow> pyfloat \<Rightarrow> pyfloat" where
  "pymin a b = (if flt b a then b else a)"

definition pymax :: "pyfloat \<Rightarrow> pyfloat \<Rightarrow> pyfloat" where
  "pymax a b = (if flt a b then b else a)"

text \<open>\<^verbatim>\<open>round(x)\<close>: an integer, or an error on an infinity or a NaN.\<close>

fun py_round :: "pyfloat \<Rightarrow> py_error + int" where
  "py_round (Fin x) = Inr (round_half_even x)"
| "py_round NaN = Inl ValueError"
| "py_round _ = Inl OverflowError"

text \<open>\<^verbatim>\<open>round(x, 1)\<close>: the float nearest to \<open>x\<close> rounded to one decimal.\<close>

fun py_round1 :: "pyfloat \<Rightarrow> pyfloat" where
  "py_round1 (Fin x) = fpack (of_int (round_half_even (x * 10)) / 10)"
| "py_round1 f = f"

text \<open>Conversion of an integer operand in mixed arithmetic: correctly rounded, and
  \<^verbatim>\<open>OverflowError\<close> when the integer is too large for a float.\<close>

definition int_to_float :: "int \<Rightarrow> py_error + pyfloat" where
  "int_to_float n =
     (case fpack (of_int n) of Fin r \<Rightarrow> Inr (Fin r) | _ \<Rightarrow> Inl OverflowError)"

text \<open>\<open>finite_or_overflow\<close> is the same test on a computed quotient.\<close>

definition finite_or_overflow :: "pyfloat \<Rightarrow> py_error + pyfloat" where
  "finite_or_overflow x = (case x of Fin r \<Rightarrow> Inr (Fin r) | _ \<Rightarrow> Inl OverflowError)"

text \<open>True division \<^verbatim>\<open>a / b\<close> of two integers: the correctly rounded quotient.\<close>

definition int_truediv :: "int \<Rightarrow> int \<Rightarrow> py_error + pyfloat" where
  "int_truediv a b =
     (if b = 0 then Inl ZeroDivisionError
      else finite_or_overflow (fpack (of_int a / of_int b)))"

text \<open>\<^verbatim>\<open>sum(xs)\<close> over floats, started from the integer 0: left-to-right addition.\<close>

definition py_sum :: "pyfloat list \<Rightarrow> pyfloat" where
  "py_sum xs = foldl fadd (Fin 0) xs"

subsection \<open>Strings and \<^verbatim>\<open>int()\<close>\<close>

definition py_isspace :: "char \<Rightarrow> bool" where
  "py_isspace c = ((of_char c :: nat) \<in> {9, 10, 11, 12, 13, 28, 29, 30, 31, 32, 133, 160})"

definition strip :: "string \<Rightarrow> string" where
  "strip s = rev (dropWhile py_isspace (rev (dropWhile py_isspace s)))"

definition lower_char :: "char \<Rightarrow> char" where
  "lower_char c =
     (let n = (of_char c :: nat)
      in if (65 \<le> n \<and> n \<le> 90) \<or> (192 \<le> n \<and> n \<le> 222 \<and> n \<noteq> 215)
         then char_of (n + 32) else c)"

definition lower :: "string \<Rightarrow> string" where
  "lower s = map lower_char s"

text \<open>\<^verbatim>\<open>s.split(',')\<close>: always at least one field.\<close>

fun split_comma :: "string \<Rightarrow> string list" where
  "split_comma [] = [[]]"
| "split_comma (c # cs) =
     (if c = CHR '','' then [] # split_comma cs
      else case split_comma cs of [] \<Rightarrow> [[c]] | w # ws \<Rightarrow> (c # w) # ws)"

text \<open>The white space \<^verbatim>\<open>int()\<close> skips around a numeral.\<close>

definition int_space :: "char \<Rightarrow> bool" where
  "int_space c = ((of_char c :: nat) \<in> {9, 10, 11, 12, 13, 32, 133, 160})"

definition is_digit :: "char \<Rightarrow> bool" where
  "is_digit c = (48 \<le> (of_char c :: nat) \<and> (of_char c :: nat) \<le> 57)"

definition digit_val :: "char \<Rightarrow> int" where
  "digit_val c = int (of_char c) - 48"

text \<open>Decimal digits with single underscores between digits; the flag says that the
  previous character was a digit.\<close>

fun parse_digits :: "bool \<Rightarrow> int \<Rightarrow> string \<Rightarrow> int option" where
  "parse_digits prev acc [] = (if prev then Some acc else None)"
| "parse_digits prev acc (c # cs) =
     (if is_digit c then parse_digits True (acc * 10 + digit_val c) cs
      else if c = CHR ''_'' \<and> prev then parse_digits False acc cs
      else None)"

text \<open>CPython refuses to convert a decimal string with more digit characters than
  \<^verbatim>\<open>sys.int_max_str_digits\<close> (4300 by default; sign, white space and underscores are
  not counted): \<^verbatim>\<open>ValueError\<close>, as for a malformed numeral.\<close>

definition int_max_str_digits :: nat where
  "int_max_str_digits = 4300"

definition digits_or_error :: "string \<Rightarrow> py_error + int" where
  "digits_or_error s =
     (case parse_digits False 0 s of
        None \<Rightarrow> Inl ValueError
      | Some n \<Rightarrow>
          if int_max_str_digits < length (filter is_digit s) then Inl ValueError else Inr n)"

definition py_int_str :: "string \<Rightarrow> py_error + int" where
  "py_int_str s =
     (case rev (dropWhile int_space (rev (dropWhile int_space s))) of
        [] \<Rightarrow> Inl ValueError
      | c # cs \<Rightarrow>
          (if c = CHR ''-'' then and_then (digits_or_error cs) (\<lambda>n. Inr (- n))
           else if c = CHR ''+'' then digits_or_error cs
           else digits_or_error (c # cs)))"

fun py_int :: "pyval \<Rightarrow> py_error + int" where
  "py_int PNone = Inl TypeError"
| "py_int (PInt n) = Inr n"
| "py_int (PStr s) = py_int_str s"

fun truthy :: "pyval \<Rightarrow> bool" where
  "truthy PNone = False"
| "truthy (PInt n) = (n \<noteq> 0)"
| "truthy (PStr s) = (s \<noteq> [])"

text \<open>\<^verbatim>\<open>x or 0\<close>\<close>

definition or_zero :: "pyval \<Rightarrow> pyval" where
  "or_zero v = (if truthy v then v else PInt 0)"

section \<open>Scoring functions\<close>

subsection \<open>\<^verbatim>\<open>calculate_workload_score\<close>\<close>

text \<open>The dictionary returned by \<^verbatim>\<open>calculate_workload_score\<close>.\<close>

record workload_data =
  workload_score :: pyfloat
  workload_percent :: int
  availability_percent :: int
  work_days :: int
  perceived_load :: int

text \<open>
  \<^verbatim>\<open>work_days = max(0, int(work_days or 0))\<close>,
  \<^verbatim>\<open>perceived_load = max(0, min(10, int(perceived_load or 0)))\<close>,
  \<^verbatim>\<open>workload_score = work_days + (perceived_load * 0.3)\<close>,
  \<^verbatim>\<open>workload_percent = min(100, round(workload_score / 23.0 * 100))\<close>.
  There is no \<^verbatim>\<open>try\<close>: an error of \<^verbatim>\<open>int()\<close>, of the conversion of
  \<^verbatim>\<open>work_days\<close> to a float or of \<^verbatim>\<open>round\<close> leaves the function.
\<close>

definition workload_score_of :: "int \<Rightarrow> int \<Rightarrow> py_error + pyfloat" where
  "workload_score_of wd pl =
     and_then (int_to_float pl) (\<lambda>plf.
     and_then (int_to_float wd) (\<lambda>wdf.
     Inr (fadd wdf (fmul plf (lit (3 / 10))))))"

definition workload_percent_of :: "pyfloat \<Rightarrow> py_error + int" where
  "workload_percent_of score =
     and_then (fdiv score (lit 23)) (\<lambda>ratio.
     and_then (py_round (fmul ratio (Fin 100))) (\<lambda>r.
     Inr (min 100 r)))"

definition calculate_workload_score :: "pyval \<Rightarrow> pyval \<Rightarrow> py_error + workload_data" where
  "calculate_workload_score wd_in pl_in =
     and_then (py_int (or_zero wd_in)) (\<lambda>w.
     and_then (py_int (or_zero pl_in)) (\<lambda>p.
     let wd = max 0 w; pl = max 0 (min 10 p) in
     and_then (workload_score_of wd pl) (\<lambda>score.
     and_then (workload_percent_of score) (\<lambda>pct.
     Inr \<lparr>workload_score = py_round1 score,
          workload_percent = pct,
          availability_percent = 100 - pct,
          work_days = wd,
          perceived_load = pl\<rparr>))))"

subsection \<open>\<^verbatim>\<open>calculate_skill_fit\<close>\<close>

text \<open>The score of one required pair against the consultant's skill dictionary
  (\<^verbatim>\<open>consultant_skills_dict.get(skill_id, 0)\<close>).\<close>

definition per_skill_score :: "(int \<rightharpoonup> int) \<Rightarrow> int \<times> int \<Rightarrow> py_error + pyfloat" where
  "per_skill_score skills req =
     (let consultant_level = (case skills (fst req) of None \<Rightarrow> 0 | Some l \<Rightarrow> l);
          required_level = snd req
      in if 0 < required_level then
           and_then (int_truediv consultant_level required_level) (\<lambda>q. Inr (pymin (Fin 1) q))
         else Inr (if 0 < consultant_level then Fin 1 else Fin 0))"

text \<open>The \<^verbatim>\<open>for\<close> loop appending to \<^verbatim>\<open>per_skill_scores\<close>; it stops at the first
  error.\<close>

fun per_skill_scores :: "(int \<rightharpoonup> int) \<Rightarrow> (int \<times> int) list \<Rightarrow> py_error + pyfloat list" where
  "per_skill_scores skills [] = Inr []"
| "per_skill_scores skills (req # reqs) =
     and_then (per_skill_score skills req) (\<lambda>x.
     and_then (per_skill_scores skills reqs) (\<lambda>xs. Inr (x # xs)))"

definition calculate_skill_fit :: "(int \<rightharpoonup> int) \<Rightarrow> (int \<times> int) list \<Rightarrow> py_error + int" where
  "calculate_skill_fit consultant_skills_dict required_skills =
     (if required_skills = [] then Inr 100
      else
        and_then (per_skill_scores consultant_skills_dict required_skills) (\<lambda>scores.
        if scores \<noteq> [] then
          and_then (int_to_float (int (length scores))) (\<lambda>n.
          and_then (fdiv (py_sum scores) n) (\<lambda>avg_score.
          py_round (fmul avg_score (Fin 100))))
        else Inr 0))"

subsection \<open>Tags, recency and intensity\<close>

definition normalize_tags :: "string option \<Rightarrow> string set" where
  "normalize_tags tags_string =
     (case tags_string of
        None \<Rightarrow> {}
      | Some s \<Rightarrow>
          if s = [] then {}
          else set (map (\<lambda>t. lower (strip t)) (filter (\<lambda>t. strip t \<noteq> []) (split_comma s))))"

text \<open>\<^verbatim>\<open>datetime(year, month, 1)\<close>: the arguments must fit a C \<^verbatim>\<open>int\<close>
  (\<^verbatim>\<open>OverflowError\<close>), then the year must be in 1..9999 and the month in 1..12
  (\<^verbatim>\<open>ValueError\<close>).\<close>

definition c_int :: "int \<Rightarrow> bool" where
  "c_int n = (- (2 ^ 31) \<le> n \<and> n < 2 ^ 31)"

definition datetime_first :: "int \<Rightarrow> int \<Rightarrow> py_error + int \<times> int" where
  "datetime_first y m =
     (if \<not> c_int y \<or> \<not> c_int m then Inl OverflowError
      else if y < 1 \<or> 9999 < y then Inl ValueError
      else if m < 1 \<or> 12 < m then Inl ValueError
      else Inr (y, m))"

text \<open>The end date of an experience, when \<^verbatim>\<open>not end_year or not end_month\<close> is
  false: both columns are present and non-zero.\<close>

definition end_date_of :: "int option \<Rightarrow> int option \<Rightarrow> (int \<times> int) option" where
  "end_date_of end_year end_month =
     (case end_year of
        None \<Rightarrow> None
      | Some y \<Rightarrow>
          (case end_month of
             None \<Rightarrow> None
           | Some m \<Rightarrow> if y = 0 \<or> m = 0 then None else Some (y, m)))"

text \<open>\<^verbatim>\<open>(now.year - end_date.year) * 12 + (now.month - end_date.month)\<close>; the pair
  \<open>now\<close> is the year and the month of \<^verbatim>\<open>datetime.now()\<close>, a parameter of the model.\<close>

definition months_since :: "int \<times> int \<Rightarrow> int \<times> int \<Rightarrow> py_error + int" where
  "months_since now ym =
     and_then (datetime_first (fst ym) (snd ym)) (\<lambda>end_date.
     Inr ((fst now - fst end_date) * 12 + (snd now - snd end_date)))"

definition calculate_recency_factor ::
  "int \<times> int \<Rightarrow> int option \<Rightarrow> int option \<Rightarrow> py_error + pyfloat" where
  "calculate_recency_factor now end_year end_month =
     (case end_date_of end_year end_month of
        None \<Rightarrow> Inr (lit (75 / 100))
      | Some ym \<Rightarrow>
          and_then (months_since now ym) (\<lambda>months.
          if months \<le> 6 then Inr (lit 1)
          else if months \<le> 18 then Inr (lit (85 / 100))
          else if months \<le> 36 then Inr (lit (70 / 100))
          else Inr (lit (60 / 100))))"

definition calculate_intensity_factor :: "int option \<Rightarrow> pyfloat" where
  "calculate_intensity_factor intensity_level =
     (case intensity_level of
        None \<Rightarrow> lit (85 / 100)
      | Some l \<Rightarrow>
          if l = 1 then lit (70 / 100)
          else if l = 2 then lit (80 / 100)
          else if l = 3 then lit (88 / 100)
          else if l = 4 then lit (95 / 100)
          else if l = 5 then lit 1
          else lit (85 / 100))"

subsection \<open>\<^verbatim>\<open>calculate_project_similarity\<close>\<close>

text \<open>The columns of \<^verbatim>\<open>Project\<close> and \<^verbatim>\<open>ConsultantProject\<close> that the scoring reads.\<close>

record project =
  p_id :: int
  p_name :: string
  client :: "string option"
  domain_tags :: "string option"

record consultant_project =
  cp_project :: project
  cp_role :: "string option"
  end_year :: "int option"
  end_month :: "int option"
  intensity_level :: "int option"

record best_match_info =
  project_name :: string
  project_id :: int
  client_match :: bool
  common_tags :: nat
  total_ref_tags :: nat
  recency_desc :: string
  intensity :: "int option"
  role :: "string option"

text \<open>\<^verbatim>\<open>(project.client or '').strip().lower()\<close>\<close>

definition norm_client :: "string option \<Rightarrow> string" where
  "norm_client c = lower (strip (case c of None \<Rightarrow> [] | Some s \<Rightarrow> s))"

text \<open>Steps (A) to (D) and the two formulas of the loop body: the similarity of one
  experience to the reference, whose normalised client and tags are \<open>client_ref\<close> and
  \<open>tags_ref\<close>.\<close>

definition client_match_of :: "string \<Rightarrow> consultant_project \<Rightarrow> int" where
  "client_match_of client_ref cp =
     (let client_past = norm_client (client (cp_project cp))
      in if client_past \<noteq> [] \<and> client_ref \<noteq> [] \<and> client_past = client_ref then 1 else 0)"

definition tag_overlap_of :: "string set \<Rightarrow> consultant_project \<Rightarrow> py_error + pyfloat" where
  "tag_overlap_of tags_ref cp =
     (let tags_past = normalize_tags (domain_tags (cp_project cp))
      in if tags_ref \<noteq> {} then
           int_truediv (int (card (tags_ref \<inter> tags_past))) (int (card tags_ref))
         else Inr (Fin 0))"

definition base_similarity :: "pyfloat \<Rightarrow> int \<Rightarrow> pyfloat" where
  "base_similarity tag_overlap cm =
     fadd (fadd (fmul (lit (45 / 100)) tag_overlap) (fmul (lit (35 / 100)) (Fin (of_int cm))))
          (fmul (lit (20 / 100))
             (pymin (Fin 1) (fadd tag_overlap (fmul (Fin (of_int cm)) (lit (5 / 10))))))"

definition similarity_of ::
  "int \<times> int \<Rightarrow> string \<Rightarrow> string set \<Rightarrow> consultant_project \<Rightarrow> py_error + pyfloat" where
  "similarity_of now client_ref tags_ref cp =
     and_then (tag_overlap_of tags_ref cp) (\<lambda>tag_overlap.
     and_then (calculate_recency_factor now (end_year cp) (end_month cp)) (\<lambda>recency.
     let intensity_factor = calculate_intensity_factor (intensity_level cp);
         base = base_similarity tag_overlap (client_match_of client_ref cp)
     in Inr (pymax (Fin 0) (pymin (Fin 1) (fmul (fmul base recency) intensity_factor)))))"

text \<open>The recency bucket description of the winning experience.\<close>

definition recency_desc_of :: "int \<times> int \<Rightarrow> consultant_project \<Rightarrow> py_error + string" where
  "recency_desc_of now cp =
     (case end_date_of (end_year cp) (end_month cp) of
        None \<Rightarrow> Inr ''Date non specificate''
      | Some ym \<Rightarrow>
          and_then (months_since now ym) (\<lambda>months.
          if months \<le> 6 then Inr ''Ultimo semestre''
          else if months \<le> 18 then Inr ''Ultimo anno e mezzo''
          else if months \<le> 36 then Inr ''Ultimi 3 anni''
          else Inr (''Pi'' @ [char_of (249 :: nat)] @ '' di 3 anni fa'')))"

definition match_info_of ::
  "string \<Rightarrow> string set \<Rightarrow> consultant_project \<Rightarrow> string \<Rightarrow> best_match_info" where
  "match_info_of client_ref tags_ref cp desc =
     \<lparr>project_name = p_name (cp_project cp),
      project_id = p_id (cp_project cp),
      client_match = (client_match_of client_ref cp = 1),
      common_tags = card (tags_ref \<inter> normalize_tags (domain_tags (cp_project cp))),
      total_ref_tags = card tags_ref,
      recency_desc = desc,
      intensity = intensity_level cp,
      role = cp_role cp\<rparr>"

text \<open>The \<^verbatim>\<open>for cp in consultant_projects\<close> loop, on the pair
  \<^verbatim>\<open>(best_similarity, best_match_info)\<close>.\<close>

fun best_scan ::
  "int \<times> int \<Rightarrow> string \<Rightarrow> string set \<Rightarrow> consultant_project list \<Rightarrow>
   pyfloat \<times> best_match_info option \<Rightarrow> py_error + pyfloat \<times> best_match_info option" where
  "best_scan now client_ref tags_ref [] st = Inr st"
| "best_scan now client_ref tags_ref (cp # cps) st =
     and_then (similarity_of now client_ref tags_ref cp) (\<lambda>similarity.
     if flt (fst st) similarity then
       and_then (recency_desc_of now cp) (\<lambda>desc.
       best_scan now client_ref tags_ref cps
         (similarity, Some (match_info_of client_ref tags_ref cp desc)))
     else best_scan now client_ref tags_ref cps st)"

definition calculate_project_similarity ::
  "int \<times> int \<Rightarrow> consultant_project list \<Rightarrow> project option \<Rightarrow>
   py_error + int \<times> best_match_info option" where
  "calculate_project_similarity now consultant_projects reference_project =
     (case reference_project of
        None \<Rightarrow> Inr (0, None)
      | Some ref \<Rightarrow>
          if consultant_projects = [] then Inr (0, None)
          else
            and_then (best_scan now (norm_client (client ref)) (normalize_tags (domain_tags ref))
                        consultant_projects (Fin 0, None)) (\<lambda>st.
            and_then (py_round (fmul (fst st) (Fin 100))) (\<lambda>score.
            Inr (score, snd st))))"

subsection \<open>\<^verbatim>\<open>calculate_final_score\<close>\<close>

definition weighted :: "rat \<Rightarrow> int \<Rightarrow> py_error + pyfloat" where
  "weighted w n = and_then (int_to_float n) (\<lambda>x. Inr (fmul (lit w) x))"

definition calculate_final_score :: "int \<Rightarrow> int \<Rightarrow> int option \<Rightarrow> py_error + int" where
  "calculate_final_score skill_fit availability project_experience =
     (case project_experience of
        Some pe \<Rightarrow>
          and_then (weighted (55 / 100) skill_fit) (\<lambda>a.
          and_then (weighted (30 / 100) availability) (\<lambda>b.
          and_then (weighted (15 / 100) pe) (\<lambda>c.
          py_round (fadd (fadd a b) c))))
      | None \<Rightarrow>
          and_then (weighted (65 / 100) skill_fit) (\<lambda>a.
          and_then (weighted (35 / 100) availability) (\<lambda>b.
          py_round (fadd a b))))"

text \<open>An experience whose end date, when it has one, is a date \<^verbatim>\<open>datetime\<close> accepts.\<close>

definition valid_end_date :: "consultant_project \<Rightarrow> bool" where
  "valid_end_date cp =
     (case end_date_of (end_year cp) (end_month cp) of
        None \<Rightarrow> True
      | Some ym \<Rightarrow> 1 \<le> fst ym \<and> fst ym \<le> 9999 \<and> 1 \<le> snd ym \<and> snd ym \<le> 12)"

section \<open>Helpers and request flows\<close>

subsection \<open>\<^verbatim>\<open>safe_int\<close>\<close>

text \<open>\<^verbatim>\<open>max(min_val, result)\<close> and \<^verbatim>\<open>min(max_val, result)\<close> on a result that may be the
  default: comparing \<^verbatim>\<open>None\<close> or a string with an integer raises \<^verbatim>\<open>TypeError\<close>.\<close>

definition clamp_with :: "(int \<Rightarrow> int \<Rightarrow> int) \<Rightarrow> int option \<Rightarrow> pyval \<Rightarrow> py_error + pyval" where
  "clamp_with f bound result =
     (case bound of
        None \<Rightarrow> Inr result
      | Some b \<Rightarrow> (case result of PInt r \<Rightarrow> Inr (PInt (f b r)) | _ \<Rightarrow> Inl TypeError))"

definition safe_int :: "pyval \<Rightarrow> pyval \<Rightarrow> int option \<Rightarrow> int option \<Rightarrow> py_error + pyval" where
  "safe_int v dflt min_val max_val =
     and_then
       (case py_int v of
          Inr n \<Rightarrow> Inr (PInt n)
        | Inl e \<Rightarrow> if e = ValueError \<or> e = TypeError then Inr dflt else Inl e)
       (\<lambda>result.
          and_then (clamp_with max min_val result) (\<lambda>result'.
          clamp_with min max_val result'))"

subsection \<open>Workload of a month\<close>

text \<open>The rows of \<^verbatim>\<open>MonthlyWorkload\<close> (nullable integer columns), of
  \<^verbatim>\<open>ConsultantSkill\<close> and of \<^verbatim>\<open>Consultant\<close> with its relationships.\<close>

record monthly_workload =
  mw_consultant_id :: int
  mw_month :: int
  mw_work_days :: "int option"
  mw_perceived_load :: "int option"

record consultant_skill =
  cs_skill_id :: int
  cs_level :: int

record consultant =
  c_id :: int
  c_name :: string
  c_skills :: "consultant_skill list"
  c_projects :: "consultant_project list"

definition column :: "int option \<Rightarrow> pyval" where
  "column v = (case v of None \<Rightarrow> PNone | Some n \<Rightarrow> PInt n)"

text \<open>\<^verbatim>\<open>MonthlyWorkload.query.filter_by(consultant_id=..., month=...).first()\<close> over the
  table, then the score of the row found, or of \<^verbatim>\<open>(0, 0)\<close>.\<close>

definition get_consultant_workload_for_month ::
  "monthly_workload list \<Rightarrow> consultant \<Rightarrow> int \<Rightarrow> py_error + workload_data" where
  "get_consultant_workload_for_month table c month =
     (case find (\<lambda>w. mw_consultant_id w = c_id c \<and> mw_month w = month) table of
        Some workload \<Rightarrow>
          calculate_workload_score (column (mw_work_days workload))
            (column (mw_perceived_load workload))
      | None \<Rightarrow> calculate_workload_score (PInt 0) (PInt 0))"

text \<open>\<^verbatim>\<open>{cs.skill_id: cs.level for cs in consultant.skills}\<close>: a later row wins.\<close>

definition get_consultant_skills_dict :: "consultant \<Rightarrow> (int \<rightharpoonup> int)" where
  "get_consultant_skills_dict c =
     map_of (rev (map (\<lambda>cs. (cs_skill_id cs, cs_level cs)) (c_skills c)))"

subsection \<open>The match and overview loops\<close>

text \<open>The scoring fields of one entry of \<^verbatim>\<open>results\<close> in \<^verbatim>\<open>match()\<close>.\<close>

record match_result =
  m_id :: int
  final_score :: int
  skill_fit :: int
  availability :: int
  project_experience :: "int option"
  best_match :: "best_match_info option"
  m_workload_data :: workload_data

text \<open>The body of \<^verbatim>\<open>for c in consultants\<close> in \<^verbatim>\<open>match()\<close>: the project similarity is
  computed only under \<^verbatim>\<open>if reference_project\<close>.\<close>

definition match_experience ::
  "int \<times> int \<Rightarrow> consultant \<Rightarrow> project option \<Rightarrow>
   py_error + int option \<times> best_match_info option" where
  "match_experience now c reference_project =
     (case reference_project of
        None \<Rightarrow> Inr (None, None)
      | Some ref \<Rightarrow>
          and_then (calculate_project_similarity now (c_projects c) (Some ref)) (\<lambda>r.
          Inr (Some (fst r), snd r)))"

definition match_consultant ::
  "int \<times> int \<Rightarrow> monthly_workload list \<Rightarrow> (int \<times> int) list \<Rightarrow> project option \<Rightarrow> int \<Rightarrow>
   consultant \<Rightarrow> py_error + match_result" where
  "match_consultant now table required_skills reference_project month c =
     and_then (calculate_skill_fit (get_consultant_skills_dict c) required_skills) (\<lambda>fit.
     and_then (get_consultant_workload_for_month table c month) (\<lambda>wl.
     and_then (match_experience now c reference_project) (\<lambda>pe.
     and_then (calculate_final_score fit (availability_percent wl) (fst pe)) (\<lambda>final.
     Inr \<lparr>m_id = c_id c,
          final_score = final,
          skill_fit = fit,
          availability = availability_percent wl,
          project_experience = fst pe,
          best_match = snd pe,
          m_workload_data = wl\<rparr>))))"

text \<open>The workload part of one entry of \<^verbatim>\<open>results\<close> in \<^verbatim>\<open>overview()\<close>, for a
  consultant that passed the filters.\<close>

record overview_result =
  o_id :: int
  o_workload_data :: workload_data

definition overview_consultant ::
  "monthly_workload list \<Rightarrow> int \<Rightarrow> consultant \<Rightarrow> py_error + overview_result" where
  "overview_consultant table month c =
     and_then (get_consultant_workload_for_month table c month) (\<lambda>wl.
     Inr \<lparr>o_id = c_id c, o_workload_data = wl\<rparr>)"

section \<open>Sample data\<close>

text \<open>Concrete records on which the statements below are evaluated.\<close>

definition sample_now :: "int \<times> int" where
  "sample_now = (2026, 11)"

definition sample_table :: "monthly_workload list" where
  "sample_table =
     [\<lparr>mw_consultant_id = 1, mw_month = 3, mw_work_days = Some 12, mw_perceived_load = Some 4\<rparr>]"

definition sample_reference :: project where
  "sample_reference =
     \<lparr>p_id = 1, p_name = ''FS DEI Community'', client = Some ''FS'',
      domain_tags = Some ''DEI, Community''\<rparr>"

definition sample_past :: project where
  "sample_past =
     \<lparr>p_id = 2, p_name = ''FS Training'', client = Some '' fs'',
      domain_tags = Some ''community,Training, dei''\<rparr>"

definition sample_other :: project where
  "sample_other =
     \<lparr>p_id = 3, p_name = ''Lavazza Day'', client = Some ''Lavazza'',
      domain_tags = Some ''Wellbeing''\<rparr>"

definition sample_experience :: consultant_project where
  "sample_experience =
     \<lparr>cp_project = sample_past, cp_role = Some ''PM'', end_year = Some 2026,
      end_month = Some 10, intensity_level = Some 5\<rparr>"

definition sample_experience_later :: consultant_project where
  "sample_experience_later =
     \<lparr>cp_project = sample_past, cp_role = Some ''Lead'', end_year = Some 2026,
      end_month = Some 9, intensity_level = Some 5\<rparr>"

definition sample_unrelated :: consultant_project where
  "sample_unrelated =
     \<lparr>cp_project = sample_other, cp_role = None, end_year = None,
      end_month = None, intensity_level = None\<rparr>"

definition sample_consultant :: consultant where
  "sample_consultant =
     \<lparr>c_id = 1, c_name = ''Ada'', c_skills = [\<lparr>cs_skill_id = 1, cs_level = 4\<rparr>],
      c_projects = []\<rparr>"

definition sample_consultant_experienced :: consultant where
  "sample_consultant_experienced =
     \<lparr>c_id = 2, c_name = ''Bea'', c_skills = [\<lparr>cs_skill_id = 1, cs_level = 4\<rparr>],
      c_projects = [sample_unrelated, sample_experience, sample_experience_later]\<rparr>"

definition sample_workload :: workload_data where
  "sample_workload =
     \<lparr>workload_score = Fin (3715469692580659 / 281474976710656), workload_percent = 57,
      availability_percent = 43, work_days = 12, perceived_load = 4\<rparr>"

definition zero_workload :: workload_data where
  "zero_workload =
     \<lparr>workload_score = Fin 0, workload_percent = 0, availability_percent = 100,
      work_days = 0, perceived_load = 0\<rparr>"

section \<open>Properties of the float model\<close>

subsection \<open>Rounding is monotone and exact on representable values\<close>

lemma binary_exponent_bounds: "0 < x \<Longrightarrow> 2 powi binary_exponent x \<le> x \<and> x < 2 powi (binary_exponent x + 1)"
proof (induction x rule: binary_exponent.induct)
  case (1 x)
  show ?case
  proof (cases "2 \<le> x")
    case True
    then have e: "binary_exponent x = binary_exponent (x / 2) + 1" using 1(3) by (subst binary_exponent.simps) simp
    have "2 powi binary_exponent (x / 2) \<le> x / 2 \<and> x / 2 < 2 powi (binary_exponent (x / 2) + 1)"
      using 1(1) True 1(3) by simp
    then show ?thesis unfolding e by (simp add: power_int_add)
  next
    case False
    show ?thesis
    proof (cases "x < 1")
      case True
      then have e: "binary_exponent x = binary_exponent (x * 2) - 1" using 1(3) False by (subst binary_exponent.simps) simp
      have "2 powi binary_exponent (x * 2) \<le> x * 2 \<and> x * 2 < 2 powi (binary_exponent (x * 2) + 1)"
        using 1(2) True False 1(3) by simp
      then show ?thesis unfolding e by (simp add: power_int_add power_int_diff)
    next
      case F2: False
      then have e: "binary_exponent x = 0" using 1(3) False by (subst binary_exponent.simps) simp
      show ?thesis unfolding e using False F2 by simp
    qed
  qed
qed

lemma pow2_less_iff: "(2::rat) powi m < 2 powi n \<longleftrightarrow> m < n"
proof
  assume a: "(2::rat) powi m < 2 powi n"
  show "m < n"
  proof (rule ccontr)
    assume "\<not> m < n"
    then have "n \<le> m" by simp
    then have "(2::rat) powi n \<le> 2 powi m" by (rule power_int_increasing) simp
    then show False using a by simp
  qed
next
  assume "m < n"
  then show "(2::rat) powi m < 2 powi n" by (rule power_int_strict_increasing) simp
qed

lemma pow2_le_iff: "(2::rat) powi m \<le> 2 powi n \<longleftrightarrow> m \<le> n"
  using pow2_less_iff[of n m] by (simp add: not_less[symmetric])

lemma binary_exponent_unique:
  assumes "2 powi e \<le> x" "x < 2 powi (e + 1)"
  shows "binary_exponent x = e"
proof -
  have "(0::rat) < 2 powi e" by simp
  then have x: "0 < x" using assms(1) by linarith
  note b = binary_exponent_bounds[OF x]
  have "2 powi e < (2::rat) powi (binary_exponent x + 1)" using assms b by linarith
  then have 1: "e < binary_exponent x + 1" by (simp only: pow2_less_iff)
  have "2 powi binary_exponent x < (2::rat) powi (e + 1)" using assms b by linarith
  then have 2: "binary_exponent x < e + 1" by (simp only: pow2_less_iff)
  show ?thesis using 1 2 by simp
qed

lemma binary_exponent_mono: "0 < x \<Longrightarrow> x \<le> y \<Longrightarrow> binary_exponent x \<le> binary_exponent y"
proof -
  assume x: "0 < x" and xy: "x \<le> y"
  then have y: "0 < y" by simp
  have "2 powi binary_exponent x < (2::rat) powi (binary_exponent y + 1)"
    using binary_exponent_bounds[OF x] binary_exponent_bounds[OF y] xy by linarith
  then show ?thesis by (simp only: pow2_less_iff)
qed

lemma round_half_even_of_int [simp]: "round_half_even (of_int n) = n"
  by (simp add: round_half_even_def)

lemma round_half_even_bounds: "\<lfloor>x\<rfloor> \<le> round_half_even x \<and> round_half_even x \<le> \<lceil>x\<rceil>"
  unfolding round_half_even_def Let_def by (auto simp: ceiling_altdef) 

lemma round_half_even_mono: "x \<le> y \<Longrightarrow> round_half_even x \<le> round_half_even y"
proof -
  assume xy: "x \<le> y"
  have "\<lfloor>x\<rfloor> \<le> \<lfloor>y\<rfloor>" using xy by (rule floor_mono)
  then consider "\<lfloor>x\<rfloor> = \<lfloor>y\<rfloor>" | "\<lfloor>x\<rfloor> + 1 \<le> \<lfloor>y\<rfloor>" by linarith
  then show ?thesis
  proof cases
    case 1
    then show ?thesis using xy unfolding round_half_even_def Let_def by auto
  next
    case 2
    have "round_half_even x \<le> \<lfloor>x\<rfloor> + 1" unfolding round_half_even_def Let_def by auto
    moreover have "\<lfloor>y\<rfloor> \<le> round_half_even y" unfolding round_half_even_def Let_def by auto
    ultimately show ?thesis using 2 by linarith
  qed
qed

lemma round_half_even_minus: "round_half_even (- x) = - round_half_even x"
proof (cases "x = of_int \<lfloor>x\<rfloor>")
  case True
  then obtain n where "x = of_int n" by blast
  then have "- x = of_int (- n)" by simp
  then show ?thesis using \<open>x = of_int n\<close> by (simp only: round_half_even_of_int)
next
  case False
  have "of_int \<lfloor>x\<rfloor> \<le> x" by (rule of_int_floor_le)
  with False have lt: "of_int \<lfloor>x\<rfloor> < x" by (metis order_le_less)
  have f: "\<lfloor>- x\<rfloor> = - \<lfloor>x\<rfloor> - 1"
    by (rule floor_unique) (use lt in \<open>simp_all\<close>, linarith)
  show ?thesis unfolding round_half_even_def Let_def f using lt by auto
qed


lemma fl_minus: "fl (- x) = - fl x"
  by (simp add: fl_def Let_def round_half_even_minus)

lemma fl_zero [simp]: "fl 0 = 0"
  by (simp add: fl_def)

lemma fl_nonneg: "0 \<le> x \<Longrightarrow> 0 \<le> fl x"
proof (cases "x = 0")
  case True
  then show ?thesis by simp
next
  case False
  assume "0 \<le> x"
  define q where "q = max (binary_exponent \<bar>x\<bar> - 52) (- 1074)"
  have "0 \<le> x / 2 powi q" using \<open>0 \<le> x\<close> by simp
  then have "round_half_even 0 \<le> round_half_even (x / 2 powi q)" by (rule round_half_even_mono)
  then have "0 \<le> round_half_even (x / 2 powi q)" using round_half_even_of_int[of 0] by simp
  then show ?thesis using False by (simp add: fl_def Let_def q_def)
qed

lemma fl_mono_pos:
  assumes x: "0 < x" and xy: "x \<le> y"
  shows "fl x \<le> fl y"
proof -
  have y: "0 < y" using x xy by simp
  define qx where "qx = max (binary_exponent x - 52) (- 1074)"
  define qy where "qy = max (binary_exponent y - 52) (- 1074)"
  have fx: "fl x = of_int (round_half_even (x / 2 powi qx)) * 2 powi qx"
    using x by (simp add: fl_def Let_def qx_def)
  have fy: "fl y = of_int (round_half_even (y / 2 powi qy)) * 2 powi qy"
    using y by (simp add: fl_def Let_def qy_def)
  have exy: "binary_exponent x \<le> binary_exponent y" using x xy by (rule binary_exponent_mono)
  then have "qx \<le> qy" by (simp add: qx_def qy_def)
  then consider "qx = qy" | "qx < qy" by linarith
  then show ?thesis
  proof cases
    case 1
    have "x / 2 powi qy \<le> y / 2 powi qy" using xy by (simp add: divide_right_mono)
    then have "round_half_even (x / 2 powi qy) \<le> round_half_even (y / 2 powi qy)" by (rule round_half_even_mono)
    then show ?thesis unfolding fx fy 1 by simp
  next
    case 2
    then have m: "max (binary_exponent x - 52) (- 1074) < max (binary_exponent y - 52) (- 1074)"
      by (simp only: qx_def qy_def)
    have qy: "qy = binary_exponent y - 52" unfolding qy_def using m by arith
    have lt: "qx < binary_exponent y - 52" unfolding qx_def using m by arith
    have q2: "binary_exponent x - 52 \<le> qx" unfolding qx_def by arith
    define k where "k = nat (binary_exponent y - qx)"
    have k: "int k = binary_exponent y - qx" using lt by (simp add: k_def)
    have "x < 2 powi (binary_exponent x + 1)" using binary_exponent_bounds[OF x] by simp
    also have "\<dots> \<le> 2 powi binary_exponent y" using q2 lt by (simp only: pow2_le_iff) 
    finally have "x / 2 powi qx < 2 powi binary_exponent y / 2 powi qx" by (simp add: divide_strict_right_mono)
    also have "\<dots> = 2 powi (int k)" by (simp add: k power_int_diff)
    also have "\<dots> = of_int (2 ^ k)" by (simp add: power_int_def)
    finally have "round_half_even (x / 2 powi qx) \<le> round_half_even (of_int (2 ^ k))" by (intro round_half_even_mono) simp
    then have "round_half_even (x / 2 powi qx) \<le> 2 ^ k" by (simp only: round_half_even_of_int)
    then have "(of_int (round_half_even (x / 2 powi qx)) :: rat) \<le> of_int (2 ^ k)" by (simp only: of_int_le_iff)
    then have "fl x \<le> of_int (2 ^ k) * 2 powi qx" unfolding fx by (simp add: mult_right_mono)
    also have "(of_int (2 ^ k) :: rat) = 2 powi (int k)" by (simp add: power_int_def)
    also have "2 powi (int k) * 2 powi qx = (2::rat) powi binary_exponent y" by (simp add: k flip: power_int_add)
    finally have up: "fl x \<le> 2 powi binary_exponent y" .
    have "(2::rat) powi 52 \<le> y / 2 powi qy"
      using binary_exponent_bounds[OF y] by (simp add: qy power_int_diff field_simps)
    then have "round_half_even (of_int (2 ^ 52)) \<le> round_half_even (y / 2 powi qy)" by (intro round_half_even_mono) simp
    then have "2 ^ 52 \<le> round_half_even (y / 2 powi qy)" by (simp only: round_half_even_of_int)
    then have "(of_int (2 ^ 52) :: rat) \<le> of_int (round_half_even (y / 2 powi qy))" by (simp only: of_int_le_iff)
    then have "of_int (2 ^ 52) * 2 powi qy \<le> fl y" unfolding fy by (simp add: mult_right_mono)
    moreover have "(of_int (2 ^ 52) :: rat) * 2 powi qy = 2 powi binary_exponent y"
      by (simp add: qy power_int_diff)
    ultimately have "2 powi binary_exponent y \<le> fl y" by simp
    with up show ?thesis by simp
  qed
qed

lemma fl_mono: "x \<le> y \<Longrightarrow> fl x \<le> fl y"
proof -
  assume xy: "x \<le> y"
  consider "0 < x" | "x \<le> 0" "0 \<le> y" | "y < 0" by linarith
  then show ?thesis
  proof cases
    case 1
    then show ?thesis using xy by (rule fl_mono_pos)
  next
    case 2
    have "0 \<le> fl (- x)" using 2 by (intro fl_nonneg) simp
    then have "fl x \<le> 0" by (simp add: fl_minus)
    moreover have "0 \<le> fl y" using 2 by (intro fl_nonneg)
    ultimately show ?thesis by simp
  next
    case 3
    have "fl (- y) \<le> fl (- x)" using 3 xy by (intro fl_mono_pos) simp_all
    then show ?thesis by (simp add: fl_minus)
  qed
qed

lemma fl_exact:
  assumes x: "x = of_int m * 2 powi k" and m: "\<bar>m\<bar> < 2 ^ 53" and k: "- 1074 \<le> k"
  shows "fl x = x"
proof (cases "x = 0")
  case True
  then show ?thesis by simp
next
  case False
  define q where "q = max (binary_exponent \<bar>x\<bar> - 52) (- 1074)"
  have ax: "0 < \<bar>x\<bar>" using False by simp
  have "\<bar>x\<bar> = of_int \<bar>m\<bar> * 2 powi k" by (simp add: x abs_mult)
  also have "\<dots> < of_int (2 ^ 53) * 2 powi k"
    using m by (intro mult_strict_right_mono) (simp_all only: of_int_less_iff zero_less_power_int zero_less_numeral)
  also have "\<dots> = 2 powi (53 + k)" by (simp add: power_int_add)
  finally have "2 powi binary_exponent \<bar>x\<bar> < (2::rat) powi (53 + k)"
    using binary_exponent_bounds[OF ax] by linarith
  then have "binary_exponent \<bar>x\<bar> < 53 + k" by (simp only: pow2_less_iff)
  then have qk: "q \<le> k" using k unfolding q_def by arith
  define j where "j = nat (k - q)"
  have j: "int j = k - q" using qk by (simp add: j_def)
  have "x / 2 powi q = of_int m * 2 powi (int j)" by (simp add: x j power_int_diff)
  also have "\<dots> = of_int (m * 2 ^ j)" by (simp add: power_int_def)
  finally have r: "round_half_even (x / 2 powi q) = m * 2 ^ j" by (simp only: round_half_even_of_int)
  have "fl x = of_int (m * 2 ^ j) * 2 powi q"
    using False r by (simp add: fl_def Let_def q_def)
  also have "\<dots> = of_int m * (2 powi (int j) * 2 powi q)" by (simp add: power_int_def)
  also have "2 powi (int j) * 2 powi q = (2::rat) powi k" by (simp add: j flip: power_int_add)
  finally show ?thesis by (simp add: x)
qed

lemma fl_of_int:
  assumes "0 \<le> n" "n \<le> 2 ^ 53"
  shows "fl (of_int n) = of_int n"
proof (cases "n = 2 ^ 53")
  case True
  have "(of_int n :: rat) = of_int (2 ^ 52) * 2 powi 1" by (simp add: True)
  then show ?thesis by (rule fl_exact) simp_all
next
  case False
  then have "\<bar>n\<bar> < 2 ^ 53" using assms by simp
  moreover have "(of_int n :: rat) = of_int n * 2 powi 0" by simp
  ultimately show ?thesis by (intro fl_exact[where m = n and k = 0]) simp_all
qed


subsection \<open>Evaluation on numerals\<close>

lemma floor_rat_numeral [simp]:
  "\<lfloor>(numeral a :: rat) / numeral b\<rfloor> = numeral a div numeral b"
  using floor_divide_of_int_eq[of "numeral a" "numeral b", where ?'a = rat] by simp

lemma floor_rat_neg_numeral [simp]:
  "\<lfloor>- ((numeral a :: rat) / numeral b)\<rfloor> = (- numeral a) div numeral b"
  using floor_divide_of_int_eq[of "- numeral a" "numeral b", where ?'a = rat] by simp

lemmas float_eval =
  fpack_def fl_def binary_exponent.simps round_half_even_def Let_def lit_def
  int_to_float_def int_truediv_def finite_or_overflow_def pymin_def pymax_def

lemma and_then_Inr:
  "and_then m f = Inr r \<longleftrightarrow> (\<exists>v. m = Inr v \<and> f v = Inr r)"
  by (cases m) simp_all

subsection \<open>Finite results and monotone operations\<close>

lemma fl_pow2: "fl (2 ^ k) = 2 ^ k"
proof -
  have "(2::rat) ^ k = of_int 1 * 2 powi (int k)" by (simp add: power_int_def)
  then show ?thesis by (rule fl_exact) simp_all
qed

lemma fl_abs_le_pow2:
  assumes "\<bar>x\<bar> \<le> 2 ^ k"
  shows "\<bar>fl x\<bar> \<le> 2 ^ k"
proof -
  have "fl x \<le> fl (2 ^ k)" using assms by (intro fl_mono) simp
  moreover have "fl (- (2 ^ k)) \<le> fl x" using assms by (intro fl_mono) simp
  ultimately show ?thesis by (simp add: fl_pow2 fl_minus abs_le_iff)
qed

lemma fpack_Fin:
  assumes "\<bar>x\<bar> \<le> 2 ^ k" "k < 1024"
  shows "fpack x = Fin (fl x)"
proof -
  have "(2::rat) ^ k < 2 ^ 1024" using assms(2) by (intro power_strict_increasing) simp_all
  with fl_abs_le_pow2[OF assms(1)] have "\<bar>fl x\<bar> < 2 ^ 1024" by linarith
  then show ?thesis by (simp add: fpack_def Let_def abs_less_iff) 
qed

lemma fpack_mono: "x \<le> y \<Longrightarrow> fle (fpack x) (fpack y)"
proof -
  assume "x \<le> y"
  then have "fl x \<le> fl y" by (rule fl_mono)
  moreover have "- ((2::rat) ^ 1024) < 2 ^ 1024" by simp
  ultimately show ?thesis unfolding fpack_def Let_def by (auto simp del: power_strict_increasing_iff)
qed

lemma fpack_not_NaN [simp]: "fpack x \<noteq> NaN"
  by (simp add: fpack_def Let_def)

lemma fle_refl: "x \<noteq> NaN \<Longrightarrow> fle x x"
  by (cases x) simp_all

lemma fle_NaN [simp]: "\<not> fle x NaN"
  by (cases x) simp_all

lemma fle_PInf [simp]: "fle x PInf \<longleftrightarrow> x \<noteq> NaN"
  by (cases x) simp_all

lemma fle_NInf [simp]: "fle NInf x \<longleftrightarrow> x \<noteq> NaN"
  by (cases x) simp_all

lemma fadd_mono_Fin: "a \<le> b \<Longrightarrow> fle x y \<Longrightarrow> fle (fadd (Fin a) x) (fadd (Fin b) y)"
  by (cases x; cases y) (simp_all add: fpack_mono add_mono)

lemma fadd_mono_left: "fle x y \<Longrightarrow> fle (fadd x (Fin t)) (fadd y (Fin t))"
  by (cases x; cases y) (simp_all add: fpack_mono)

lemma fadd_mono_right: "fle x y \<Longrightarrow> fle (fadd (Fin t) x) (fadd (Fin t) y)"
  by (cases x; cases y) (simp_all add: fpack_mono)

lemma fmul_mono_left: "0 < c \<Longrightarrow> fle x y \<Longrightarrow> fle (fmul x (Fin c)) (fmul y (Fin c))"
  by (cases x; cases y) (simp_all add: fpack_mono)

lemma fmul_mono_right: "0 < c \<Longrightarrow> fle x y \<Longrightarrow> fle (fmul (Fin c) x) (fmul (Fin c) y)"
  by (cases x; cases y) (simp_all add: fpack_mono)

lemma fdiv_mono:
  "0 < c \<Longrightarrow> fle x y \<Longrightarrow> fdiv x (Fin c) = Inr u \<Longrightarrow> fdiv y (Fin c) = Inr v \<Longrightarrow> fle u v"
  by (cases x; cases y) (auto simp: fpack_mono divide_right_mono)

lemma py_round_mono:
  "fle x y \<Longrightarrow> py_round x = Inr k \<Longrightarrow> py_round y = Inr l \<Longrightarrow> k \<le> l"
  by (cases x; cases y) (auto simp: round_half_even_mono)

lemma int_to_float_Inr:
  "int_to_float n = Inr x \<Longrightarrow> x = fpack (of_int n)"
  by (auto simp: int_to_float_def split: pyfloat.splits)

lemma int_to_float_mono:
  "a \<le> b \<Longrightarrow> int_to_float a = Inr x \<Longrightarrow> int_to_float b = Inr y \<Longrightarrow> fle x y"
  by (auto dest!: int_to_float_Inr intro!: fpack_mono)

lemma int_to_float_Fin: "int_to_float n = Inr x \<Longrightarrow> \<exists>r. x = Fin r"
  by (cases "fpack (of_int n)") (auto simp: int_to_float_def)

lemma lit_3_10: "lit (3 / 10) = Fin (5404319552844595 / 2 ^ 54)"
  by (simp add: float_eval)

lemma lit_23: "lit 23 = Fin 23"
  by (simp add: float_eval)

lemma workload_score_of_mono:
  assumes "workload_score_of a p = Inr s" "workload_score_of b q = Inr t" "a \<le> b" "p \<le> q"
  shows "fle s t"
proof -
  from assms(1) obtain pf af where 1: "int_to_float p = Inr pf" "int_to_float a = Inr af"
      "s = fadd af (fmul pf (lit (3 / 10)))"
    by (auto simp: workload_score_of_def and_then_Inr)
  from assms(2) obtain qf bf where 2: "int_to_float q = Inr qf" "int_to_float b = Inr bf"
      "t = fadd bf (fmul qf (lit (3 / 10)))"
    by (auto simp: workload_score_of_def and_then_Inr)
  obtain av bv where f: "af = Fin av" "bf = Fin bv"
    using int_to_float_Fin[OF 1(2)] int_to_float_Fin[OF 2(2)] by blast
  have pq: "fle pf qf" using assms(4) 1(1) 2(1) by (rule int_to_float_mono)
  have ab: "fle af bf" using assms(3) 1(2) 2(2) by (rule int_to_float_mono)
  have m: "fle (fmul pf (lit (3 / 10))) (fmul qf (lit (3 / 10)))"
    unfolding lit_3_10 using fmul_mono_left[of "5404319552844595 / 2 ^ 54" pf qf] pq by simp
  have "av \<le> bv" using ab f by simp
  then show ?thesis unfolding 1(3) 2(3) f using m by (rule fadd_mono_Fin)
qed

lemma workload_percent_of_mono:
  assumes "workload_percent_of s = Inr k" "workload_percent_of t = Inr l" "fle s t"
  shows "k \<le> l"
proof -
  from assms(1) obtain u i where 1: "fdiv s (Fin 23) = Inr u"
      "py_round (fmul u (Fin 100)) = Inr i" "k = min 100 i"
    by (auto simp: workload_percent_of_def and_then_Inr lit_23)
  from assms(2) obtain v j where 2: "fdiv t (Fin 23) = Inr v"
      "py_round (fmul v (Fin 100)) = Inr j" "l = min 100 j"
    by (auto simp: workload_percent_of_def and_then_Inr lit_23)
  have "fle u v" using fdiv_mono[of 23 s t u v] assms(3) 1(1) 2(1) by simp
  then have "fle (fmul u (Fin 100)) (fmul v (Fin 100))" using fmul_mono_left[of 100 u v] by simp
  then have "i \<le> j" using 1(2) 2(2) by (rule py_round_mono)
  then show ?thesis by (simp add: 1(3) 2(3))
qed

lemma workload_percent_mono:
  assumes r: "calculate_workload_score wi pk = Inr r"
    and r': "calculate_workload_score wj pj = Inr r'"
    and w: "py_int (or_zero wi) = Inr a" "py_int (or_zero wj) = Inr b" "a \<le> b"
    and p: "py_int (or_zero pk) = Inr c" "py_int (or_zero pj) = Inr d" "c \<le> d"
  shows "workload_percent r \<le> workload_percent r'"
proof -
  from r w(1) p(1) obtain s where 1:
      "workload_score_of (max 0 a) (max 0 (min 10 c)) = Inr s"
      "workload_percent_of s = Inr (workload_percent r)"
    by (auto simp: calculate_workload_score_def and_then_Inr Let_def)
  from r' w(2) p(2) obtain t where 2:
      "workload_score_of (max 0 b) (max 0 (min 10 d)) = Inr t"
      "workload_percent_of t = Inr (workload_percent r')"
    by (auto simp: calculate_workload_score_def and_then_Inr Let_def)
  have "max 0 a \<le> max 0 b" "max 0 (min 10 c) \<le> max 0 (min 10 d)"
    using w(3) p(3) by simp_all
  with 1(1) 2(1) have "fle s t" by (rule workload_score_of_mono)
  with 1(2) 2(2) show ?thesis by (rule workload_percent_of_mono)
qed

subsection \<open>Totality of the workload score on accepted inputs\<close>

lemma py_int_errors: "py_int v = Inl e \<Longrightarrow> e = ValueError \<or> e = TypeError"
  by (cases v) (auto simp: py_int_str_def digits_or_error_def and_then_Inr
      split: list.splits if_splits option.splits)

lemma fpack_bounded:
  assumes "\<bar>x\<bar> \<le> 2 ^ k" "k < 1024"
  shows "\<exists>r. fpack x = Fin r \<and> \<bar>r\<bar> \<le> 2 ^ k"
  using fpack_Fin[OF assms] fl_abs_le_pow2[OF assms(1)] by simp

lemma int_to_float_bounded:
  assumes "\<bar>n\<bar> \<le> 2 ^ k" "k < 1024"
  shows "\<exists>r. int_to_float n = Inr (Fin r) \<and> \<bar>r\<bar> \<le> 2 ^ k"
proof -
  have "\<bar>of_int n :: rat\<bar> \<le> of_int (2 ^ k)" using assms(1) by (simp only: of_int_abs[symmetric] of_int_le_iff)
  then have "\<bar>of_int n :: rat\<bar> \<le> 2 ^ k" by simp
  from fpack_bounded[OF this assms(2)] show ?thesis by (auto simp: int_to_float_def)
qed

text \<open>The largest \<^verbatim>\<open>work_days\<close> for which \<^verbatim>\<open>workload_score / 23.0 * 100\<close> is still a
  finite float is \<open>16573246628723425 * 2^968\<close>: it converts to the float
  \<open>8286623314361712 * 2^969\<close> (a tie, rounded to even), adding the load term does not change
  that float, the quotient by \<open>23.0\<close> is \<open>2882303761517117 * 2^966\<close> and its product with
  \<open>100\<close> rounds to the largest finite float. One more work day converts to the next float,
  and the product rounds to infinity, on which \<^verbatim>\<open>round\<close> raises \<^verbatim>\<open>OverflowError\<close>.\<close>

lemma fl_by_exponent:
  assumes "2 powi e \<le> \<bar>x\<bar>" "\<bar>x\<bar> < 2 powi (e + 1)" "- 1022 \<le> e"
  shows "fl x = of_int (round_half_even (x / 2 powi (e - 52))) * 2 powi (e - 52)"
proof -
  have e: "binary_exponent \<bar>x\<bar> = e" using assms(1,2) by (rule binary_exponent_unique)
  have "(0::rat) < 2 powi e" by simp
  then have "0 < \<bar>x\<bar>" using assms(1) by linarith
  then have "x \<noteq> 0" by simp
  moreover have "max (e - 52) (- 1074) = e - 52" using assms(3) by simp
  ultimately show ?thesis by (simp add: fl_def e Let_def)
qed

lemma fpack_by_exponent:
  assumes "2 powi e \<le> \<bar>x\<bar>" "\<bar>x\<bar> < 2 powi (e + 1)" "- 1022 \<le> e"
    and "of_int (round_half_even (x / 2 powi (e - 52))) * 2 powi (e - 52) = y"
    and "\<bar>y\<bar> < 2 ^ 1024"
  shows "fpack x = Fin y"
proof -
  have "fl x = y" using fl_by_exponent[OF assms(1-3)] assms(4) by simp
  then show ?thesis using assms(5) by (simp add: fpack_def Let_def abs_less_iff)
qed

lemma threshold_float:
  "fpack (of_int (16573246628723425 * 2 ^ 968)) = Fin (8286623314361712 * 2 ^ 969)"
  by (rule fpack_by_exponent[where e = 1021]) (simp_all add: round_half_even_def Let_def)

lemma threshold_sum:
  "fpack (8286623314361712 * 2 ^ 969 + 16) = Fin (8286623314361712 * 2 ^ 969)"
  by (rule fpack_by_exponent[where e = 1021]) (simp_all add: round_half_even_def Let_def)

lemma threshold_ratio:
  "fpack (8286623314361712 * 2 ^ 969 / 23) = Fin (2882303761517117 * 2 ^ 966)"
  by (rule fpack_by_exponent[where e = 1017]) (simp_all add: round_half_even_def Let_def)

lemma threshold_percent:
  "fpack (2882303761517117 * 2 ^ 966 * 100) = Fin (9007199254740991 * 2 ^ 971)"
  by (rule fpack_by_exponent[where e = 1023]) (simp_all add: round_half_even_def Let_def)

lemma above_float:
  "fpack (of_int (16573246628723425 * 2 ^ 968 + 1)) = Fin (8286623314361713 * 2 ^ 969)"
  by (rule fpack_by_exponent[where e = 1021]) (simp_all add: round_half_even_def Let_def)

lemma above_exact:
  "fpack (8286623314361713 * 2 ^ 969) = Fin (8286623314361713 * 2 ^ 969)"
  by (rule fpack_by_exponent[where e = 1021]) (simp_all add: round_half_even_def Let_def)

lemma above_ratio:
  "fpack (8286623314361713 * 2 ^ 969 / 23) = Fin (5764607523034235 * 2 ^ 965)"
  by (rule fpack_by_exponent[where e = 1017]) (simp_all add: round_half_even_def Let_def)

lemma above_percent: "fpack (5764607523034235 * 2 ^ 965 * 100) = PInf"
proof -
  have "(2::rat) ^ 1024 \<le> 5764607523034235 * 2 ^ 965 * 100" by simp
  then have "fl (2 ^ 1024) \<le> fl (5764607523034235 * 2 ^ 965 * 100)" by (rule fl_mono)
  then have "2 ^ 1024 \<le> fl (5764607523034235 * 2 ^ 965 * 100)" by (simp only: fl_pow2)
  then show ?thesis by (simp only: fpack_def Let_def if_True)
qed


lemma fpack_exact_by_exponent:
  "fpack (8286623314361712 * 2 ^ 969) = Fin (8286623314361712 * 2 ^ 969)"
  by (rule fpack_by_exponent[where e = 1021]) (simp_all add: round_half_even_def Let_def)

lemma fle_Fin_between:
  "fle (Fin l) x \<Longrightarrow> fle x (Fin h) \<Longrightarrow> \<exists>v. x = Fin v \<and> l \<le> v \<and> v \<le> h"
  by (cases x) simp_all

lemma fpack_between:
  assumes "fpack lo = Fin l" "fpack hi = Fin h" "lo \<le> x" "x \<le> hi"
  shows "\<exists>v. fpack x = Fin v \<and> l \<le> v \<and> v \<le> h"
proof -
  have "fle (Fin l) (fpack x)" using fpack_mono[OF assms(3)] assms(1) by simp
  moreover have "fle (fpack x) (Fin h)" using fpack_mono[OF assms(4)] assms(2) by simp
  ultimately show ?thesis by (rule fle_Fin_between)
qed

lemma fle_PInf_left: "fle PInf x \<Longrightarrow> x = PInf"
  by (cases x) simp_all

lemma fpack_small: "fpack 0 = Fin 0" "fpack (- 16) = Fin (- 16)" "fpack 16 = Fin 16"
  "fpack (- 1600) = Fin (- 1600)"
  by (simp_all add: float_eval)

lemma load_term_bounded:
  assumes "0 \<le> p" "p \<le> 10"
  shows "\<exists>pf t. int_to_float p = Inr (Fin pf) \<and> fmul (Fin pf) (lit (3 / 10)) = Fin t
           \<and> 0 \<le> t \<and> t \<le> 16"
proof -
  have "(0::rat) \<le> of_int p" "(of_int p :: rat) \<le> 16" using assms by simp_all
  from fpack_between[OF fpack_small(1) fpack_small(3) this]
  obtain pf where pf: "fpack (of_int p) = Fin pf" "0 \<le> pf" "pf \<le> 16" by blast
  have "pf * (5404319552844595 / 2 ^ 54) \<le> pf * 1"
    using pf(2) by (intro mult_left_mono) simp_all
  then have "0 \<le> pf * (5404319552844595 / 2 ^ 54)" "pf * (5404319552844595 / 2 ^ 54) \<le> 16"
    using pf(2,3) by simp_all
  from fpack_between[OF fpack_small(1) fpack_small(3) this]
  obtain t where t: "fpack (pf * (5404319552844595 / 2 ^ 54)) = Fin t" "0 \<le> t" "t \<le> 16"
    by blast
  show ?thesis using pf t by (auto simp: int_to_float_def lit_3_10)
qed

lemma workload_returns_up_to_threshold:
  assumes a: "py_int (or_zero wd) = Inr a" and b: "py_int (or_zero pl) = Inr b"
    and bound: "a \<le> 16573246628723425 * 2 ^ 968"
  shows "\<exists>r. calculate_workload_score wd pl = Inr r \<and> work_days r = max 0 a
    \<and> perceived_load r = max 0 (min 10 b)"
proof -
  define W :: int where "W = 16573246628723425 * 2 ^ 968"
  define FW :: rat where "FW = 8286623314361712 * 2 ^ 969"
  define U :: rat where "U = 2882303761517117 * 2 ^ 966"
  define Z :: rat where "Z = 9007199254740991 * 2 ^ 971"
  have tf: "fpack (of_int W) = Fin FW" unfolding W_def FW_def by (rule threshold_float)
  have ts: "fpack (FW + 16) = Fin FW" unfolding FW_def by (rule threshold_sum)
  have tr: "fpack (FW / 23) = Fin U" unfolding FW_def U_def by (rule threshold_ratio)
  have tp: "fpack (U * 100) = Fin Z" unfolding U_def Z_def by (rule threshold_percent)
  define w where "w = max 0 a"
  define p where "p = max 0 (min 10 b)"
  have "0 \<le> p" "p \<le> 10" by (simp_all add: p_def)
  from load_term_bounded[OF this] obtain pf t where pf: "int_to_float p = Inr (Fin pf)"
    and t: "fmul (Fin pf) (lit (3 / 10)) = Fin t" "0 \<le> t" "t \<le> 16" by blast
  have "0 \<le> W" by (simp add: W_def)
  then have "0 \<le> w" "w \<le> W" using bound by (simp_all add: w_def W_def)
  then have "(of_int 0 :: rat) \<le> of_int w" "(of_int w :: rat) \<le> of_int W"
    by (simp_all only: of_int_le_iff)
  then have "(0 :: rat) \<le> of_int w" "(of_int w :: rat) \<le> of_int W" by simp_all
  from fpack_between[OF fpack_small(1) tf this]
  obtain wf where wf: "fpack (of_int w) = Fin wf" "0 \<le> wf" "wf \<le> FW" by blast
  have wf': "int_to_float w = Inr (Fin wf)" by (simp add: int_to_float_def wf(1))
  have "- 16 \<le> wf + t" "wf + t \<le> FW + 16" using wf(2,3) t(2,3) by linarith+
  from fpack_between[OF fpack_small(2) ts this]
  obtain s where s: "fpack (wf + t) = Fin s" "- 16 \<le> s" "s \<le> FW" by blast
  have score: "workload_score_of w p = Inr (Fin s)"
    by (simp add: workload_score_of_def pf wf' t(1) s(1))
  have "- 16 \<le> s / 23" "s / 23 \<le> FW / 23" using s(2,3) by (simp_all add: divide_right_mono)
  from fpack_between[OF fpack_small(2) tr this]
  obtain u where u: "fpack (s / 23) = Fin u" "- 16 \<le> u" "u \<le> U" by blast
  have "- 1600 \<le> u * 100" "u * 100 \<le> U * 100" using u(2,3) by simp_all
  from fpack_between[OF fpack_small(4) tp this]
  obtain z where z: "fpack (u * 100) = Fin z" by blast
  have pct: "workload_percent_of (Fin s) = Inr (min 100 (round_half_even z))"
    by (simp add: workload_percent_of_def lit_23 u(1) z)
  show ?thesis
    by (simp add: calculate_workload_score_def a b Let_def score pct
        flip: w_def p_def)
qed

lemma fdiv_total: "c \<noteq> 0 \<Longrightarrow> \<exists>u. fdiv x (Fin c) = Inr u"
  by (cases x) simp_all

lemma workload_overflows_above_threshold:
  assumes a: "py_int (or_zero wd) = Inr a" and b: "py_int (or_zero pl) = Inr b"
    and bound: "16573246628723425 * 2 ^ 968 < a"
  shows "calculate_workload_score wd pl = Inl OverflowError"
proof -
  define W :: int where "W = 16573246628723425 * 2 ^ 968"
  define FW :: rat where "FW = 8286623314361713 * 2 ^ 969"
  define U :: rat where "U = 5764607523034235 * 2 ^ 965"
  have tf: "fpack (of_int (W + 1)) = Fin FW" unfolding W_def FW_def by (rule above_float)
  have te: "fpack FW = Fin FW" unfolding FW_def by (rule above_exact)
  have tr: "fpack (FW / 23) = Fin U" unfolding FW_def U_def by (rule above_ratio)
  have tp: "fpack (U * 100) = PInf" unfolding U_def by (rule above_percent)
  define p where "p = max 0 (min 10 b)"
  have "0 \<le> p" "p \<le> 10" by (simp_all add: p_def)
  from load_term_bounded[OF this] obtain pf t where pf: "int_to_float p = Inr (Fin pf)"
    and t: "fmul (Fin pf) (lit (3 / 10)) = Fin t" "0 \<le> t" "t \<le> 16" by blast
  have "0 \<le> W" by (simp add: W_def)
  have Wa: "W + 1 \<le> a" using bound by (simp add: W_def)
  then have w: "max 0 a = a" using \<open>0 \<le> W\<close> by simp
  have start: "calculate_workload_score wd pl =
      and_then (workload_score_of a p) (\<lambda>score.
      and_then (workload_percent_of score) (\<lambda>pct.
        Inr \<lparr>workload_score = py_round1 score, workload_percent = pct,
             availability_percent = 100 - pct, work_days = a, perceived_load = p\<rparr>))"
    by (simp add: calculate_workload_score_def a b Let_def w flip: p_def)
  show ?thesis
  proof (cases "int_to_float a")
    case (Inl e)
    then have "e = OverflowError" by (auto simp: int_to_float_def split: pyfloat.splits)
    then show ?thesis using Inl by (simp add: start workload_score_of_def pf)
  next
    case (Inr af)
    then have af: "af = fpack (of_int a)" by (rule int_to_float_Inr)
    have "(of_int (W + 1) :: rat) \<le> of_int a" using Wa by (simp only: of_int_le_iff)
    then have 1: "fle (Fin FW) af" using fpack_mono[of "of_int (W + 1)" "of_int a"] tf af by simp
    obtain av where av: "af = Fin av" using int_to_float_Fin[OF Inr] by blast
    have "FW \<le> av" using 1 av by simp
    then have "FW \<le> av + t" using t(2) by linarith
    then have 2: "fle (Fin FW) (fpack (av + t))" using fpack_mono[of FW "av + t"] te by simp
    define s where "s = fpack (av + t)"
    have score: "workload_score_of a p = Inr s"
      by (simp add: workload_score_of_def pf Inr av t(1) s_def)
    obtain u where u: "fdiv s (Fin 23) = Inr u" using fdiv_total[of 23 s] by auto
    have "fdiv (Fin FW) (Fin 23) = Inr (Fin U)" by (simp add: tr)
    then have "fle (Fin U) u" using fdiv_mono[of 23 "Fin FW" s "Fin U" u] 2 u by (simp add: s_def)
    then have "fle (fmul (Fin U) (Fin 100)) (fmul u (Fin 100))"
      using fmul_mono_left[of 100 "Fin U" u] by simp
    then have "fle PInf (fmul u (Fin 100))" by (simp add: tp)
    then have "fmul u (Fin 100) = PInf" by (rule fle_PInf_left)
    then have "workload_percent_of s = Inl OverflowError"
      by (simp add: workload_percent_of_def lit_23 u)
    then show ?thesis by (simp add: start score)
  qed
qed

lemma workload_error_of_int:
  "py_int (or_zero wd) = Inl e \<Longrightarrow> calculate_workload_score wd pl = Inl e"
  "py_int (or_zero wd) = Inr a \<Longrightarrow> py_int (or_zero pl) = Inl e \<Longrightarrow>
     calculate_workload_score wd pl = Inl e"
  by (simp_all add: calculate_workload_score_def)

lemma workload_at_threshold:
  "calculate_workload_score (PInt (16573246628723425 * 2 ^ 968)) (PInt 0) =
     Inr \<lparr>workload_score = Fin (8286623314361712 * 2 ^ 969), workload_percent = 100,
          availability_percent = 0, work_days = 16573246628723425 * 2 ^ 968,
          perceived_load = 0\<rparr>"
proof -
  define W :: int where "W = 16573246628723425 * 2 ^ 968"
  define FW :: rat where "FW = 8286623314361712 * 2 ^ 969"
  define U :: rat where "U = 2882303761517117 * 2 ^ 966"
  define Z :: rat where "Z = 9007199254740991 * 2 ^ 971"
  have tf: "fpack (of_int W) = Fin FW" unfolding W_def FW_def by (rule threshold_float)
  have te: "fpack FW = Fin FW" unfolding FW_def by (rule fpack_exact_by_exponent)
  have tr: "fpack (FW / 23) = Fin U" unfolding FW_def U_def by (rule threshold_ratio)
  have tp: "fpack (U * 100) = Fin Z" unfolding U_def Z_def by (rule threshold_percent)
  have W: "0 < W" "W \<noteq> 0" "max 0 W = W" by (simp_all add: W_def)
  have Z: "Z = of_int (9007199254740991 * 2 ^ 971)" by (simp add: Z_def)
  have rz: "min 100 (round_half_even Z) = 100" unfolding Z by (simp only: round_half_even_of_int) simp
  have FW: "FW * 10 = of_int (82866233143617120 * 2 ^ 969)" by (simp add: FW_def)
  have r1: "of_int (round_half_even (FW * 10)) / 10 = FW"
    unfolding FW by (simp only: round_half_even_of_int) (simp add: FW_def)
  have "calculate_workload_score (PInt W) (PInt 0) =
     Inr \<lparr>workload_score = Fin FW, workload_percent = 100,
          availability_percent = 0, work_days = W, perceived_load = 0\<rparr>"
    by (simp add: calculate_workload_score_def or_zero_def W workload_score_of_def
        workload_percent_of_def int_to_float_def fpack_small tf te tr tp lit_23 lit_3_10 rz r1)
  then show ?thesis unfolding W_def FW_def .
qed

lemma or_zero_column: "py_int (or_zero (column x)) = Inr (case x of None \<Rightarrow> 0 | Some n \<Rightarrow> n)"
  by (cases x) (simp_all add: column_def or_zero_def)

lemma int_of_padded_digit: "py_int (or_zero (PStr '' 7 '')) = Inr 7"
    by (simp add: or_zero_def py_int_str_def int_space_def digits_or_error_def int_max_str_digits_def is_digit_def digit_val_def)
lemma int_of_none_or_zero: "py_int (or_zero PNone) = Inr 0" by (simp add: or_zero_def)
lemma workload_of_numeric_string: "calculate_workload_score (PStr '' 7 '') PNone =
     Inr \<lparr>workload_score = Fin 7, workload_percent = 30, availability_percent = 70,
          work_days = 7, perceived_load = 0\<rparr>"
    using int_of_none_or_zero by (simp add: calculate_workload_score_def workload_score_of_def workload_percent_of_def
        int_of_padded_digit float_eval)
lemma safe_int_clamps: "safe_int (PStr ''12'') (PInt 3) (Some 1) (Some 5) = Inr (PInt 5)"
   by (simp add: safe_int_def clamp_with_def py_int_str_def int_space_def digits_or_error_def int_max_str_digits_def is_digit_def digit_val_def)
lemma safe_int_default: "safe_int (PStr ''n/a'') (PInt 3) (Some 1) (Some 5) = Inr (PInt 3)"
   by (simp add: safe_int_def clamp_with_def py_int_str_def int_space_def digits_or_error_def int_max_str_digits_def is_digit_def digit_val_def)

subsection \<open>The best-match loop\<close>

lemma clamp_unit: "\<exists>v. pymax (Fin 0) (pymin (Fin 1) x) = Fin v \<and> 0 \<le> v \<and> v \<le> 1"
  by (cases x) (auto simp: pymin_def pymax_def)

lemma similarity_range:
  "similarity_of now cr tr cp = Inr s \<Longrightarrow> \<exists>v. s = Fin v \<and> 0 \<le> v \<and> v \<le> 1"
  using clamp_unit by (auto simp: similarity_of_def and_then_Inr Let_def)

lemma best_scan_spec:
  assumes "best_scan now cr tr cps (Fin b0, i0) = Inr (best, info)"
  shows "(best = Fin b0 \<and> info = i0
          \<and> (\<forall>c \<in> set cps. \<exists>u. similarity_of now cr tr c = Inr (Fin u) \<and> u \<le> b0))
       \<or> (\<exists>pre w post v d. cps = pre @ w # post
            \<and> similarity_of now cr tr w = Inr (Fin v) \<and> b0 < v
            \<and> (\<forall>c \<in> set pre. \<exists>u. similarity_of now cr tr c = Inr (Fin u) \<and> u < v)
            \<and> (\<forall>c \<in> set post. \<exists>u. similarity_of now cr tr c = Inr (Fin u) \<and> u \<le> v)
            \<and> recency_desc_of now w = Inr d
            \<and> best = Fin v \<and> info = Some (match_info_of cr tr w d))"
  using assms
proof (induction cps arbitrary: b0 i0)
  case Nil
  then show ?case by simp
next
  case (Cons c rest)
  from Cons.prems obtain s where s: "similarity_of now cr tr c = Inr s"
    by (auto simp: and_then_Inr)
  then obtain u where u: "s = Fin u" using similarity_range by blast
  show ?case
  proof (cases "b0 < u")
    case True
    with Cons.prems s u obtain d where d: "recency_desc_of now c = Inr d"
      and r: "best_scan now cr tr rest (Fin u, Some (match_info_of cr tr c d)) = Inr (best, info)"
      by (auto simp: and_then_Inr)
    from Cons.IH[OF r] show ?thesis
    proof
      assume a: "best = Fin u \<and> info = Some (match_info_of cr tr c d) \<and>
        (\<forall>c\<in>set rest. \<exists>ua. similarity_of now cr tr c = Inr (Fin ua) \<and> ua \<le> u)"
      have "c # rest = [] @ c # rest" by simp
      with a s u d True show ?thesis by (intro disjI2) (metis empty_iff set_empty2)
    next
      assume "\<exists>pre w post v da. rest = pre @ w # post \<and>
        similarity_of now cr tr w = Inr (Fin v) \<and> u < v \<and>
        (\<forall>c\<in>set pre. \<exists>ua. similarity_of now cr tr c = Inr (Fin ua) \<and> ua < v) \<and>
        (\<forall>c\<in>set post. \<exists>ua. similarity_of now cr tr c = Inr (Fin ua) \<and> ua \<le> v) \<and>
        recency_desc_of now w = Inr da \<and> best = Fin v \<and> info = Some (match_info_of cr tr w da)"
      then obtain pre w post v da where b: "rest = pre @ w # post"
        "similarity_of now cr tr w = Inr (Fin v)" "u < v"
        "\<forall>c\<in>set pre. \<exists>ua. similarity_of now cr tr c = Inr (Fin ua) \<and> ua < v"
        "\<forall>c\<in>set post. \<exists>ua. similarity_of now cr tr c = Inr (Fin ua) \<and> ua \<le> v"
        "recency_desc_of now w = Inr da" "best = Fin v" "info = Some (match_info_of cr tr w da)"
        by blast
      have 1: "c # rest = (c # pre) @ w # post" using b(1) by simp
      have 2: "\<forall>x\<in>set (c # pre). \<exists>ua. similarity_of now cr tr x = Inr (Fin ua) \<and> ua < v"
        using b(3,4) s u by auto
      have 3: "b0 < v" using True b(3) by simp
      show ?thesis using 1 2 3 b(2,5,6,7,8) by blast
    qed
  next
    case False
    with Cons.prems s u have r: "best_scan now cr tr rest (Fin b0, i0) = Inr (best, info)"
      by (auto simp: and_then_Inr)
    from Cons.IH[OF r] show ?thesis
    proof
      assume "best = Fin b0 \<and> info = i0 \<and>
        (\<forall>c\<in>set rest. \<exists>ua. similarity_of now cr tr c = Inr (Fin ua) \<and> ua \<le> b0)"
      then show ?thesis using s u False by auto
    next
      assume "\<exists>pre w post v da. rest = pre @ w # post \<and>
        similarity_of now cr tr w = Inr (Fin v) \<and> b0 < v \<and>
        (\<forall>c\<in>set pre. \<exists>ua. similarity_of now cr tr c = Inr (Fin ua) \<and> ua < v) \<and>
        (\<forall>c\<in>set post. \<exists>ua. similarity_of now cr tr c = Inr (Fin ua) \<and> ua \<le> v) \<and>
        recency_desc_of now w = Inr da \<and> best = Fin v \<and> info = Some (match_info_of cr tr w da)"
      then obtain pre w post v da where b: "rest = pre @ w # post"
        "similarity_of now cr tr w = Inr (Fin v)" "b0 < v"
        "\<forall>c\<in>set pre. \<exists>ua. similarity_of now cr tr c = Inr (Fin ua) \<and> ua < v"
        "\<forall>c\<in>set post. \<exists>ua. similarity_of now cr tr c = Inr (Fin ua) \<and> ua \<le> v"
        "recency_desc_of now w = Inr da" "best = Fin v" "info = Some (match_info_of cr tr w da)"
        by blast
      have 1: "c # rest = (c # pre) @ w # post" using b(1) by simp
      have 2: "\<forall>x\<in>set (c # pre). \<exists>ua. similarity_of now cr tr x = Inr (Fin ua) \<and> ua < v"
        using b(3,4) s u False by auto
      show ?thesis using 1 2 b(2,3,5,6,7,8) by blast
    qed
  qed
qed

subsection \<open>Evaluation of the sample data\<close>

lemmas text_eval = strip_def lower_def lower_char_def py_isspace_def norm_client_def
  normalize_tags_def char_of_def bit_Suc_0_iff

lemmas similarity_eval = similarity_of_def tag_overlap_of_def client_match_of_def
  base_similarity_def calculate_recency_factor_def end_date_of_def months_since_def
  datetime_first_def c_int_def calculate_intensity_factor_def recency_desc_of_def
  match_info_of_def

lemma sample_tags_reference: "normalize_tags (domain_tags sample_reference) = {''dei'', ''community''}"
  by (simp add: sample_reference_def text_eval)

lemma sample_tags_past: "normalize_tags (domain_tags sample_past) = {''community'', ''training'', ''dei''}"
  by (simp add: sample_past_def text_eval)

lemma sample_tags_other: "normalize_tags (domain_tags sample_other) = {''wellbeing''}"
  by (simp add: sample_other_def text_eval)

lemma sample_clients: "norm_client (client sample_reference) = ''fs''"
  "norm_client (client sample_past) = ''fs''" "norm_client (client sample_other) = ''lavazza''"
  by (simp_all add: sample_reference_def sample_past_def sample_other_def text_eval)

lemma sample_similarity_first: "similarity_of sample_now ''fs'' {''dei'', ''community''} sample_experience = Inr (Fin 1)"
  by (simp add: similarity_eval sample_experience_def sample_now_def sample_tags_past sample_clients float_eval)

lemma sample_similarity_unrelated: "similarity_of sample_now ''fs'' {''dei'', ''community''} sample_unrelated = Inr (Fin 0)"
  by (simp add: similarity_eval sample_unrelated_def sample_now_def sample_tags_other sample_clients float_eval)

lemma sample_similarity_later: "similarity_of sample_now ''fs'' {''dei'', ''community''} sample_experience_later = Inr (Fin 1)"
  by (simp add: similarity_eval sample_experience_later_def sample_now_def sample_tags_past sample_clients float_eval)

lemma sample_recency_desc: "recency_desc_of sample_now sample_experience = Inr ''Ultimo semestre''"
  by (simp add: recency_desc_of_def end_date_of_def months_since_def datetime_first_def c_int_def
      sample_experience_def sample_now_def)

lemma sample_match_info:
  "match_info_of ''fs'' {''dei'', ''community''} sample_experience ''Ultimo semestre'' =
     \<lparr>project_name = ''FS Training'', project_id = 2, client_match = True,
      common_tags = 2, total_ref_tags = 2, recency_desc = ''Ultimo semestre'',
      intensity = Some 5, role = Some ''PM''\<rparr>"
proof -
  have p: "cp_project sample_experience = sample_past" by (simp add: sample_experience_def)
  show ?thesis
    by (simp add: match_info_of_def client_match_of_def p sample_clients sample_tags_past)
       (simp add: sample_experience_def sample_past_def)
qed

lemma sample_similarity:
  "calculate_project_similarity sample_now
     [sample_unrelated, sample_experience, sample_experience_later] (Some sample_reference) =
   Inr (100, Some \<lparr>project_name = ''FS Training'', project_id = 2, client_match = True,
     common_tags = 2, total_ref_tags = 2, recency_desc = ''Ultimo semestre'',
     intensity = Some 5, role = Some ''PM''\<rparr>)"
  by (simp add: calculate_project_similarity_def sample_tags_reference sample_clients sample_similarity_first sample_similarity_unrelated sample_similarity_later sample_recency_desc
      sample_match_info float_eval)

lemma round_of_zero: "py_round (fmul (Fin 0) (Fin 100)) = Inr 0"
  by (simp add: float_eval)

lemma round_of_one: "py_round (fmul (Fin 1) (Fin 100)) = Inr 100"
  by (simp add: float_eval)

subsection \<open>The final score formulas and the sample match\<close>

lemma workload_zero: "calculate_workload_score (PInt 0) (PInt 0) = Inr zero_workload"
  by (simp add: calculate_workload_score_def workload_score_of_def workload_percent_of_def
      or_zero_def float_eval zero_workload_def)

lemma weighted_Inr: "weighted w n = Inr x \<Longrightarrow> x = fmul (lit w) (fpack (of_int n))"
  by (auto simp: weighted_def and_then_Inr dest: int_to_float_Inr)

lemma final_score_two_terms:
  "calculate_final_score sf av None = Inr k \<Longrightarrow>
   py_round (fadd (fmul (lit (65 / 100)) (fpack (of_int sf)))
                  (fmul (lit (35 / 100)) (fpack (of_int av)))) = Inr k"
  by (auto simp: calculate_final_score_def and_then_Inr dest!: weighted_Inr)

lemma final_score_three_terms:
  "calculate_final_score sf av (Some pe) = Inr k \<Longrightarrow>
   py_round (fadd (fadd (fmul (lit (55 / 100)) (fpack (of_int sf)))
                        (fmul (lit (30 / 100)) (fpack (of_int av))))
                  (fmul (lit (15 / 100)) (fpack (of_int pe)))) = Inr k"
  by (auto simp: calculate_final_score_def and_then_Inr dest!: weighted_Inr)

lemma sample_skill_fit:
  "calculate_skill_fit (get_consultant_skills_dict sample_consultant) [(1, 5)] = Inr 80"
  "calculate_skill_fit (get_consultant_skills_dict sample_consultant_experienced) [(1, 5)] = Inr 80"
  by (simp_all add: calculate_skill_fit_def per_skill_score_def py_sum_def
      get_consultant_skills_dict_def sample_consultant_def sample_consultant_experienced_def
      float_eval)

lemma sample_month_workload:
  "get_consultant_workload_for_month sample_table sample_consultant 3 = Inr sample_workload"
  by (simp add: get_consultant_workload_for_month_def sample_table_def sample_consultant_def
      column_def calculate_workload_score_def workload_score_of_def workload_percent_of_def
      or_zero_def float_eval sample_workload_def)

lemma sample_final_scores:
  "calculate_final_score 80 43 None = Inr 67"
  "calculate_final_score 80 43 (Some 0) = Inr 57"
  "calculate_final_score 80 100 (Some 100) = Inr 89"
  by (simp_all add: calculate_final_score_def weighted_def float_eval)

lemma sample_fields:
  "availability_percent sample_workload = 43" "c_id sample_consultant = 1"
  "c_projects sample_consultant = []"
  by (simp_all add: sample_workload_def sample_consultant_def)

lemma sample_match_no_reference_weighted:
  "match_consultant sample_now sample_table [(1, 5)] None 3 sample_consultant =
     Inr \<lparr>m_id = 1, final_score = 67, skill_fit = 80, availability = 43,
          project_experience = None, best_match = None, m_workload_data = sample_workload\<rparr>"
  by (simp add: match_consultant_def sample_skill_fit sample_month_workload
      match_experience_def sample_final_scores sample_fields)

lemma sample_match_reference_no_experience:
  "match_consultant sample_now sample_table [(1, 5)] (Some sample_reference) 3 sample_consultant =
     Inr \<lparr>m_id = 1, final_score = 57, skill_fit = 80, availability = 43,
          project_experience = Some 0, best_match = None, m_workload_data = sample_workload\<rparr>"
  by (simp add: match_consultant_def sample_skill_fit sample_month_workload
      match_experience_def calculate_project_similarity_def sample_final_scores sample_fields)

lemma sample_match_reference_experienced:
  "match_consultant sample_now sample_table [(1, 5)] (Some sample_reference) 3
     sample_consultant_experienced =
     Inr \<lparr>m_id = 2, final_score = 89, skill_fit = 80, availability = 100,
          project_experience = Some 100,
          best_match = Some \<lparr>project_name = ''FS Training'', project_id = 2,
            client_match = True, common_tags = 2, total_ref_tags = 2,
            recency_desc = ''Ultimo semestre'', intensity = Some 5, role = Some ''PM''\<rparr>,
          m_workload_data = zero_workload\<rparr>"
proof -
  have f: "c_id sample_consultant_experienced = 2"
    "c_projects sample_consultant_experienced =
       [sample_unrelated, sample_experience, sample_experience_later]"
    by (simp_all add: sample_consultant_experienced_def)
  have w: "get_consultant_workload_for_month sample_table sample_consultant_experienced 3 =
      Inr zero_workload"
    by (simp add: get_consultant_workload_for_month_def sample_table_def f workload_zero)
  have z: "availability_percent zero_workload = 100" by (simp add: zero_workload_def)
  show ?thesis
    by (simp add: match_consultant_def sample_skill_fit w match_experience_def f
        sample_similarity sample_final_scores z)
qed

subsection \<open>The metadata of the winning experience\<close>

lemma recency_desc_label:
  assumes "recency_desc_of now w = Inr d"
  shows "d = (case end_date_of (end_year w) (end_month w) of
                None \<Rightarrow> ''Date non specificate''
              | Some ym \<Rightarrow>
                  (let months = (fst now - fst ym) * 12 + (snd now - snd ym)
                   in if months \<le> 6 then ''Ultimo semestre''
                      else if months \<le> 18 then ''Ultimo anno e mezzo''
                      else if months \<le> 36 then ''Ultimi 3 anni''
                      else ''Pi'' @ [char_of (249 :: nat)] @ '' di 3 anni fa''))"
  using assms
  by (auto simp: recency_desc_of_def months_since_def datetime_first_def and_then_Inr Let_def
      split: option.splits if_splits)

lemma match_info_fields:
  "match_info_of cr tr w d =
     \<lparr>project_name = p_name (cp_project w), project_id = p_id (cp_project w),
      client_match = (cr \<noteq> [] \<and> norm_client (client (cp_project w)) = cr),
      common_tags = card (tr \<inter> normalize_tags (domain_tags (cp_project w))),
      total_ref_tags = card tr, recency_desc = d,
      intensity = intensity_level w, role = cp_role w\<rparr>"
  by (auto simp: match_info_of_def client_match_of_def Let_def)

section \<open>The claims\<close>

subsection \<open>Workload\<close>

text \<open>
  C1. For every pair of inputs, the record returned by \<open>calculate_workload_score\<close>
  satisfies \<open>workload_percent + availability_percent = 100\<close>.
\<close>

theorem C1_percentages_sum_to_100:
  "calculate_workload_score wd pl = Inr r \<Longrightarrow>
   workload_percent r + availability_percent r = 100"
  by (auto simp: calculate_workload_score_def and_then_Inr Let_def)

theorem C1_percentages_sum_to_100_witness:
  "calculate_workload_score (PInt 5) (PInt 3) =
     Inr \<lparr>workload_score = Fin (3321404725185741 / 562949953421312), workload_percent = 26,
          availability_percent = 74, work_days = 5, perceived_load = 3\<rparr>
   \<and> workload_percent \<lparr>workload_score = Fin (3321404725185741 / 562949953421312),
        workload_percent = 26, availability_percent = 74, work_days = 5, perceived_load = 3\<rparr>
     + availability_percent \<lparr>workload_score = Fin (3321404725185741 / 562949953421312),
        workload_percent = 26, availability_percent = 74, work_days = 5, perceived_load = 3\<rparr>
     = 100"
proof -
  have h: "calculate_workload_score (PInt 5) (PInt 3) =
     Inr \<lparr>workload_score = Fin (3321404725185741 / 562949953421312), workload_percent = 26,
          availability_percent = 74, work_days = 5, perceived_load = 3\<rparr>"
    by (simp add: calculate_workload_score_def workload_score_of_def workload_percent_of_def
        or_zero_def float_eval)
  from C1_percentages_sum_to_100[OF h] h show ?thesis by blast
qed

text \<open>
  C10. When no \<open>MonthlyWorkload\<close> row exists for the consultant and the requested month,
  the month is scored as \<open>work_days = 0\<close>, \<open>perceived_load = 0\<close>: workload 0 percent and
  availability 100 percent, in the overview loop and in the match loop.
\<close>

theorem C10_missing_month_fully_available:
  assumes "\<forall>w \<in> set table. \<not> (mw_consultant_id w = c_id c \<and> mw_month w = month)"
  shows "get_consultant_workload_for_month table c month = Inr zero_workload
    \<and> overview_consultant table month c = Inr \<lparr>o_id = c_id c, o_workload_data = zero_workload\<rparr>
    \<and> (match_consultant now table required_skills reference_project month c = Inr m \<longrightarrow>
         availability m = 100 \<and> m_workload_data m = zero_workload)"
proof -
  have f: "find (\<lambda>w. mw_consultant_id w = c_id c \<and> mw_month w = month) table = None"
    using assms by (simp add: find_None_iff)
  have g: "get_consultant_workload_for_month table c month = Inr zero_workload"
    by (simp add: get_consultant_workload_for_month_def f workload_zero)
  have o: "overview_consultant table month c =
      Inr \<lparr>o_id = c_id c, o_workload_data = zero_workload\<rparr>"
    by (simp add: overview_consultant_def g)
  have "availability m = 100 \<and> m_workload_data m = zero_workload"
    if "match_consultant now table required_skills reference_project month c = Inr m"
    using that by (auto simp: match_consultant_def and_then_Inr g zero_workload_def)
  with g o show ?thesis by blast
qed

lemma final_score_full: "calculate_final_score 100 100 None = Inr 100"
  by (simp add: calculate_final_score_def weighted_def float_eval)

lemma sample_match_no_reference:
  "match_consultant sample_now sample_table [] None 4 sample_consultant =
     Inr \<lparr>m_id = 1, final_score = 100, skill_fit = 100, availability = 100,
          project_experience = None, best_match = None, m_workload_data = zero_workload\<rparr>"
  by (simp add: match_consultant_def calculate_skill_fit_def
      get_consultant_workload_for_month_def sample_table_def sample_consultant_def
      workload_zero match_experience_def final_score_full zero_workload_def)

theorem C10_missing_month_fully_available_witness:
  "find (\<lambda>w. mw_consultant_id w = c_id sample_consultant \<and> mw_month w = 4) sample_table = None
   \<and> get_consultant_workload_for_month sample_table sample_consultant 4 = Inr zero_workload
   \<and> overview_consultant sample_table 4 sample_consultant =
        Inr \<lparr>o_id = 1, o_workload_data = zero_workload\<rparr>
   \<and> match_consultant sample_now sample_table [] None 4 sample_consultant =
        Inr \<lparr>m_id = 1, final_score = 100, skill_fit = 100, availability = 100,
             project_experience = None, best_match = None, m_workload_data = zero_workload\<rparr>"
proof -
  have h: "\<forall>w \<in> set sample_table.
      \<not> (mw_consultant_id w = c_id sample_consultant \<and> mw_month w = 4)"
    by (simp add: sample_table_def)
  have i: "c_id sample_consultant = 1" by (simp add: sample_consultant_def)
  have f: "find (\<lambda>w. mw_consultant_id w = c_id sample_consultant \<and> mw_month w = 4)
      sample_table = None"
    using h by (simp add: find_None_iff)
  from C10_missing_month_fully_available[OF h] f sample_match_no_reference i
  show ?thesis by simp
qed

subsection \<open>Match flow\<close>

text \<open>
  C4. In the match computation the two-term formula
  \<open>round(0.65 * skill_fit + 0.35 * availability)\<close> is applied exactly when the reference
  project is absent; with a reference project present the three-term formula
  \<open>round(0.55 * skill_fit + 0.30 * availability + 0.15 * project_experience)\<close> is applied
  to the similarity score, also when the consultant has no experiences and that score
  is 0. The products and sums are those of binary64 floats, on the integers converted to
  floats.
\<close>

theorem C4_formula_follows_reference:
  "(match_consultant now table required_skills None month c = Inr m \<longrightarrow>
      calculate_skill_fit (get_consultant_skills_dict c) required_skills = Inr (skill_fit m)
      \<and> get_consultant_workload_for_month table c month = Inr (m_workload_data m)
      \<and> availability m = availability_percent (m_workload_data m)
      \<and> project_experience m = None \<and> best_match m = None
      \<and> py_round (fadd (fmul (lit (65 / 100)) (fpack (of_int (skill_fit m))))
                        (fmul (lit (35 / 100)) (fpack (of_int (availability m)))))
          = Inr (final_score m))
   \<and> (match_consultant now table required_skills (Some reference) month c = Inr m \<longrightarrow>
      calculate_skill_fit (get_consultant_skills_dict c) required_skills = Inr (skill_fit m)
      \<and> get_consultant_workload_for_month table c month = Inr (m_workload_data m)
      \<and> availability m = availability_percent (m_workload_data m)
      \<and> (\<exists>pe. project_experience m = Some pe
        \<and> calculate_project_similarity now (c_projects c) (Some reference)
            = Inr (pe, best_match m)
        \<and> py_round (fadd (fadd (fmul (lit (55 / 100)) (fpack (of_int (skill_fit m))))
                               (fmul (lit (30 / 100)) (fpack (of_int (availability m)))))
                         (fmul (lit (15 / 100)) (fpack (of_int pe))))
            = Inr (final_score m))
      \<and> (c_projects c = [] \<longrightarrow> project_experience m = Some 0 \<and> best_match m = None))"
  by (auto simp: match_consultant_def and_then_Inr match_experience_def
      calculate_project_similarity_def
      dest: final_score_two_terms final_score_three_terms)

theorem C4_formula_follows_reference_witness:
  "match_consultant sample_now sample_table [(1, 5)] None 3 sample_consultant =
     Inr \<lparr>m_id = 1, final_score = 67, skill_fit = 80, availability = 43,
          project_experience = None, best_match = None, m_workload_data = sample_workload\<rparr>
   \<and> py_round (fadd (fmul (lit (65 / 100)) (fpack 80)) (fmul (lit (35 / 100)) (fpack 43)))
       = Inr 67
   \<and> match_consultant sample_now sample_table [(1, 5)] (Some sample_reference) 3
       sample_consultant =
     Inr \<lparr>m_id = 1, final_score = 57, skill_fit = 80, availability = 43,
          project_experience = Some 0, best_match = None, m_workload_data = sample_workload\<rparr>
   \<and> py_round (fadd (fadd (fmul (lit (55 / 100)) (fpack 80)) (fmul (lit (30 / 100)) (fpack 43)))
         (fmul (lit (15 / 100)) (fpack 0))) = Inr 57
   \<and> match_consultant sample_now sample_table [(1, 5)] (Some sample_reference) 3
       sample_consultant_experienced =
     Inr \<lparr>m_id = 2, final_score = 89, skill_fit = 80, availability = 100,
          project_experience = Some 100,
          best_match = Some \<lparr>project_name = ''FS Training'', project_id = 2,
            client_match = True, common_tags = 2, total_ref_tags = 2,
            recency_desc = ''Ultimo semestre'', intensity = Some 5, role = Some ''PM''\<rparr>,
          m_workload_data = zero_workload\<rparr>
   \<and> py_round (fadd (fadd (fmul (lit (55 / 100)) (fpack 80)) (fmul (lit (30 / 100)) (fpack 100)))
         (fmul (lit (15 / 100)) (fpack 100))) = Inr 89"
proof -
  note a = C4_formula_follows_reference[THEN conjunct1, THEN mp,
      OF sample_match_no_reference_weighted]
  note b = C4_formula_follows_reference[THEN conjunct2, THEN mp,
      OF sample_match_reference_no_experience]
  note c = C4_formula_follows_reference[THEN conjunct2, THEN mp,
      OF sample_match_reference_experienced]
  from a b c sample_match_no_reference_weighted sample_match_reference_no_experience
    sample_match_reference_experienced
  show ?thesis by simp
qed

subsection \<open>Recency\<close>

text \<open>
  C5. \<open>calculate_recency_factor\<close> returns 1.0 when the whole-month difference between now
  and a valid end date is at most 6, 0.85 for 7 to 18, 0.70 for 19 to 36, 0.60 beyond,
  and 0.75 when the end year or the end month is missing.
\<close>

theorem C5_recency_buckets:
  "calculate_recency_factor now None em = Inr (lit (75 / 100))
   \<and> calculate_recency_factor now ey None = Inr (lit (75 / 100))
   \<and> (1 \<le> y \<and> y \<le> 9999 \<and> 1 \<le> m \<and> m \<le> 12 \<longrightarrow>
        calculate_recency_factor now (Some y) (Some m) =
          Inr (let months = (fst now - y) * 12 + (snd now - m)
               in if months \<le> 6 then lit 1
                  else if months \<le> 18 then lit (85 / 100)
                  else if months \<le> 36 then lit (70 / 100)
                  else lit (60 / 100)))"
  by (auto simp: calculate_recency_factor_def end_date_of_def months_since_def
      datetime_first_def c_int_def Let_def split: option.splits)

theorem C5_recency_buckets_witness:
  "calculate_recency_factor (2026, 11) (Some 2026) (Some 5) = Inr (lit 1)
   \<and> calculate_recency_factor (2026, 11) (Some 2026) (Some 4) = Inr (lit (85 / 100))
   \<and> calculate_recency_factor (2026, 11) (Some 2025) (Some 4) = Inr (lit (70 / 100))
   \<and> calculate_recency_factor (2026, 11) (Some 2023) (Some 10) = Inr (lit (60 / 100))"
  using C5_recency_buckets[of "(2026, 11)" None None 2026 5]
    C5_recency_buckets[of "(2026, 11)" None None 2026 4]
    C5_recency_buckets[of "(2026, 11)" None None 2025 4]
    C5_recency_buckets[of "(2026, 11)" None None 2023 10]
  by simp

lemma literal_values:
  "lit 1 = Fin 1" "lit (85 / 100) = Fin (7656119366529843 / 2 ^ 53)"
  "lit (70 / 100) = Fin (3152519739159347 / 2 ^ 52)"
  "lit (60 / 100) = Fin (5404319552844595 / 2 ^ 53)" "lit (75 / 100) = Fin (3 / 4)"
  by (simp_all add: float_eval)

subsection \<open>Monotonicity of the workload percentage\<close>

text \<open>
  C8. \<open>workload_percent\<close> is monotone non-decreasing in each argument: for a fixed
  perceived load it does not decrease when \<open>work_days\<close> increases, and for fixed work days
  it does not decrease when \<open>perceived_load\<close> increases.
\<close>

theorem C8_workload_percent_monotone:
  "(calculate_workload_score (PInt a) pl = Inr r \<and> calculate_workload_score (PInt b) pl = Inr r'
      \<and> a \<le> b \<longrightarrow> workload_percent r \<le> workload_percent r')
   \<and> (calculate_workload_score wd (PInt a) = Inr r \<and> calculate_workload_score wd (PInt b) = Inr r'
      \<and> a \<le> b \<longrightarrow> workload_percent r \<le> workload_percent r')"
proof (intro conjI impI)
  assume h: "calculate_workload_score (PInt a) pl = Inr r \<and>
    calculate_workload_score (PInt b) pl = Inr r' \<and> a \<le> b"
  then obtain c where c: "py_int (or_zero pl) = Inr c"
    by (auto simp: calculate_workload_score_def and_then_Inr)
  have ia: "py_int (or_zero (PInt a)) = Inr a" "py_int (or_zero (PInt b)) = Inr b"
    by (simp_all add: or_zero_def)
  show "workload_percent r \<le> workload_percent r'"
    using workload_percent_mono[of "PInt a" pl r "PInt b" pl r' a b c c] h c ia by simp
next
  assume h: "calculate_workload_score wd (PInt a) = Inr r \<and>
    calculate_workload_score wd (PInt b) = Inr r' \<and> a \<le> b"
  then obtain c where c: "py_int (or_zero wd) = Inr c"
    by (auto simp: calculate_workload_score_def and_then_Inr)
  have ia: "py_int (or_zero (PInt a)) = Inr a" "py_int (or_zero (PInt b)) = Inr b"
    by (simp_all add: or_zero_def)
  show "workload_percent r \<le> workload_percent r'"
    using workload_percent_mono[of wd "PInt a" r wd "PInt b" r' c c a b] h c ia by simp
qed

theorem C8_workload_percent_monotone_witness:
  "calculate_workload_score (PInt 5) (PInt 3) =
     Inr \<lparr>workload_score = Fin (3321404725185741 / 562949953421312), workload_percent = 26,
          availability_percent = 74, work_days = 5, perceived_load = 3\<rparr>
   \<and> calculate_workload_score (PInt 7) (PInt 3) =
     Inr \<lparr>workload_score = Fin (4447304632028365 / 562949953421312), workload_percent = 34,
          availability_percent = 66, work_days = 7, perceived_load = 3\<rparr>
   \<and> calculate_workload_score (PInt 5) (PInt 8) =
     Inr \<lparr>workload_score = Fin (4165829655317709 / 562949953421312), workload_percent = 32,
          availability_percent = 68, work_days = 5, perceived_load = 8\<rparr>
   \<and> (5 :: int) \<le> 7 \<and> (3 :: int) \<le> 8 \<and> (26 :: int) \<le> 34 \<and> (26 :: int) \<le> 32"
proof -
  have a: "calculate_workload_score (PInt 5) (PInt 3) =
     Inr \<lparr>workload_score = Fin (3321404725185741 / 562949953421312), workload_percent = 26,
          availability_percent = 74, work_days = 5, perceived_load = 3\<rparr>"
    by (simp add: calculate_workload_score_def workload_score_of_def workload_percent_of_def
        or_zero_def float_eval)
  have b: "calculate_workload_score (PInt 7) (PInt 3) =
     Inr \<lparr>workload_score = Fin (4447304632028365 / 562949953421312), workload_percent = 34,
          availability_percent = 66, work_days = 7, perceived_load = 3\<rparr>"
    by (simp add: calculate_workload_score_def workload_score_of_def workload_percent_of_def
        or_zero_def float_eval)
  have c: "calculate_workload_score (PInt 5) (PInt 8) =
     Inr \<lparr>workload_score = Fin (4165829655317709 / 562949953421312), workload_percent = 32,
          availability_percent = 68, work_days = 5, perceived_load = 8\<rparr>"
    by (simp add: calculate_workload_score_def workload_score_of_def workload_percent_of_def
        or_zero_def float_eval)
  from C8_workload_percent_monotone[where a = 5 and b = 7 and pl = "PInt 3"
      and r = "\<lparr>workload_score = Fin (3321404725185741 / 562949953421312),
        workload_percent = 26, availability_percent = 74, work_days = 5, perceived_load = 3\<rparr>"
      and r' = "\<lparr>workload_score = Fin (4447304632028365 / 562949953421312),
        workload_percent = 34, availability_percent = 66, work_days = 7, perceived_load = 3\<rparr>"]
    C8_workload_percent_monotone[where a = 3 and b = 8 and wd = "PInt 5"
      and r = "\<lparr>workload_score = Fin (3321404725185741 / 562949953421312),
        workload_percent = 26, availability_percent = 74, work_days = 5, perceived_load = 3\<rparr>"
      and r' = "\<lparr>workload_score = Fin (4165829655317709 / 562949953421312),
        workload_percent = 32, availability_percent = 68, work_days = 5, perceived_load = 8\<rparr>"]
    a b c
  show ?thesis by simp
qed

subsection \<open>Totality of the numeric entry points\<close>

text \<open>
  C3, as stated: \<open>safe_int\<close> and \<open>calculate_workload_score\<close> return a result for every
  input value, non-numeric strings included. This fails for \<open>calculate_workload_score\<close>:
  its \<^verbatim>\<open>int(work_days or 0)\<close> is not guarded, and on the string \<^verbatim>\<open>'abc'\<close> it raises
  \<^verbatim>\<open>ValueError\<close>.
\<close>

theorem C3_non_numeric_string_raises: "calculate_workload_score (PStr ''abc'') (PInt 0) = Inl ValueError"
  by (simp add: calculate_workload_score_def or_zero_def py_int_str_def int_space_def
      digits_or_error_def int_max_str_digits_def is_digit_def)

text \<open>
  C3, amended: \<open>safe_int\<close> with an integer default returns an integer for every value
  (\<^verbatim>\<open>None\<close>, integer or string): the integer \<^verbatim>\<open>int()\<close> gives, or the default when
  \<^verbatim>\<open>int()\<close> raises, clamped to the bounds given. \<open>calculate_workload_score\<close> returns a
  record exactly when \<^verbatim>\<open>int()\<close> accepts \<^verbatim>\<open>work_days or 0\<close> and
  \<^verbatim>\<open>perceived_load or 0\<close> and the work days are at most \<open>16573246628723425 * 2^968\<close>;
  the record then holds the clamped inputs. With accepted inputs and more work days it
  raises \<^verbatim>\<open>OverflowError\<close>. The values of the nullable integer columns it is called with
  are accepted.
\<close>

theorem C3_returns_exactly_on_accepted_inputs:
  "safe_int v (PInt d) min_val max_val =
     Inr (PInt (let r0 = (case py_int v of Inr n \<Rightarrow> n | Inl e \<Rightarrow> d);
                    r1 = (case min_val of None \<Rightarrow> r0 | Some lo \<Rightarrow> max lo r0)
                in (case max_val of None \<Rightarrow> r1 | Some hi \<Rightarrow> min hi r1)))
   \<and> ((\<exists>r. calculate_workload_score wd pl = Inr r) \<longleftrightarrow>
        (\<exists>a b. py_int (or_zero wd) = Inr a \<and> py_int (or_zero pl) = Inr b
           \<and> a \<le> 16573246628723425 * 2 ^ 968))
   \<and> (py_int (or_zero wd) = Inr a \<and> py_int (or_zero pl) = Inr b \<longrightarrow>
        (if a \<le> 16573246628723425 * 2 ^ 968
         then \<exists>r. calculate_workload_score wd pl = Inr r \<and> work_days r = max 0 a
                \<and> perceived_load r = max 0 (min 10 b)
         else calculate_workload_score wd pl = Inl OverflowError))
   \<and> py_int (or_zero (column x)) = Inr (case x of None \<Rightarrow> 0 | Some n \<Rightarrow> n)"
proof (intro conjI impI iffI)
  show "safe_int v (PInt d) min_val max_val =
     Inr (PInt (let r0 = (case py_int v of Inr n \<Rightarrow> n | Inl e \<Rightarrow> d);
                    r1 = (case min_val of None \<Rightarrow> r0 | Some lo \<Rightarrow> max lo r0)
                in (case max_val of None \<Rightarrow> r1 | Some hi \<Rightarrow> min hi r1)))"
    using py_int_errors[of v]
    by (cases "py_int v") (auto simp: safe_int_def clamp_with_def Let_def split: option.splits)
next
  assume "\<exists>r. calculate_workload_score wd pl = Inr r"
  then obtain r where r: "calculate_workload_score wd pl = Inr r" ..
  then obtain a' b' where ab: "py_int (or_zero wd) = Inr a'" "py_int (or_zero pl) = Inr b'"
    by (auto simp: calculate_workload_score_def and_then_Inr)
  have "a' \<le> 16573246628723425 * 2 ^ 968"
  proof (rule ccontr)
    assume "\<not> a' \<le> 16573246628723425 * 2 ^ 968"
    then have "16573246628723425 * 2 ^ 968 < a'" by (simp only: not_le)
    from workload_overflows_above_threshold[OF ab this] r show False by simp
  qed
  with ab show "\<exists>a b. py_int (or_zero wd) = Inr a \<and> py_int (or_zero pl) = Inr b
           \<and> a \<le> 16573246628723425 * 2 ^ 968" by blast
next
  assume "\<exists>a b. py_int (or_zero wd) = Inr a \<and> py_int (or_zero pl) = Inr b
           \<and> a \<le> 16573246628723425 * 2 ^ 968"
  then obtain a' b' where "py_int (or_zero wd) = Inr a'" "py_int (or_zero pl) = Inr b'"
    "a' \<le> 16573246628723425 * 2 ^ 968" by blast
  from workload_returns_up_to_threshold[OF this]
  show "\<exists>r. calculate_workload_score wd pl = Inr r" by blast
next
  assume h: "py_int (or_zero wd) = Inr a \<and> py_int (or_zero pl) = Inr b"
  show "if a \<le> 16573246628723425 * 2 ^ 968
         then \<exists>r. calculate_workload_score wd pl = Inr r \<and> work_days r = max 0 a
                \<and> perceived_load r = max 0 (min 10 b)
         else calculate_workload_score wd pl = Inl OverflowError"
  proof (cases "a \<le> 16573246628723425 * 2 ^ 968")
    case True
    from workload_returns_up_to_threshold[OF h[THEN conjunct1] h[THEN conjunct2] True] True
    show ?thesis by (simp only: if_True)
  next
    case False
    then have "16573246628723425 * 2 ^ 968 < a" by (simp only: not_le)
    from workload_overflows_above_threshold[OF h[THEN conjunct1] h[THEN conjunct2] this] False
    show ?thesis by (simp only: if_False)
  qed
next
  show "py_int (or_zero (column x)) = Inr (case x of None \<Rightarrow> 0 | Some n \<Rightarrow> n)"
    by (rule or_zero_column)
qed

theorem C3_returns_exactly_on_accepted_inputs_witness:
  "py_int (or_zero (PStr '' 7 '')) = Inr 7 \<and> py_int (or_zero PNone) = Inr 0
   \<and> (7 :: int) \<le> 16573246628723425 * 2 ^ 968
   \<and> calculate_workload_score (PStr '' 7 '') PNone =
       Inr \<lparr>workload_score = Fin 7, workload_percent = 30, availability_percent = 70,
            work_days = 7, perceived_load = 0\<rparr>
   \<and> safe_int (PStr ''n/a'') (PInt 3) (Some 1) (Some 5) = Inr (PInt 3)
   \<and> safe_int (PStr ''12'') (PInt 3) (Some 1) (Some 5) = Inr (PInt 5)
   \<and> calculate_workload_score (PInt (16573246628723425 * 2 ^ 968)) (PInt 0) =
       Inr \<lparr>workload_score = Fin (8286623314361712 * 2 ^ 969), workload_percent = 100,
            availability_percent = 0, work_days = 16573246628723425 * 2 ^ 968,
            perceived_load = 0\<rparr>
   \<and> calculate_workload_score (PInt (16573246628723425 * 2 ^ 968 + 1)) (PInt 0) =
       Inl OverflowError"
proof -
  have "py_int (or_zero (PInt (16573246628723425 * 2 ^ 968 + 1))) =
      Inr (16573246628723425 * 2 ^ 968 + 1)" "py_int (or_zero (PInt 0)) = Inr 0"
    by (simp_all add: or_zero_def)
  then have "calculate_workload_score (PInt (16573246628723425 * 2 ^ 968 + 1)) (PInt 0) =
       Inl OverflowError"
    using C3_returns_exactly_on_accepted_inputs[where wd = "PInt (16573246628723425 * 2 ^ 968 + 1)"
        and pl = "PInt 0" and a = "16573246628723425 * 2 ^ 968 + 1" and b = 0]
    by simp
  moreover have "safe_int (PStr ''n/a'') (PInt 3) (Some 1) (Some 5) = Inr (PInt 3)"
    using C3_returns_exactly_on_accepted_inputs[where v = "PStr ''n/a''" and d = 3
        and min_val = "Some 1" and max_val = "Some 5"] safe_int_default
    by simp
  ultimately show ?thesis
    using int_of_padded_digit int_of_none_or_zero workload_of_numeric_string safe_int_clamps
      workload_at_threshold
    by simp
qed

subsection \<open>Project similarity\<close>

text \<open>
  C2. \<open>calculate_project_similarity\<close> returns \<open>(0, None)\<close> when the reference project is
  absent or the experience list is empty. Otherwise, when it returns, either every
  experience has similarity 0, the score is 0 and the metadata is absent; or the list
  splits around a winning experience whose similarity is positive, strictly greater than
  that of every earlier experience and at least that of every later one (the first
  strict maximum), the score is \<open>round(similarity * 100)\<close> and the metadata describes the
  winner: its project name and id, whether its client matched, the number of common tags,
  the number of reference tags, the recency label of its end date, its intensity level
  and its role.
\<close>

theorem C2_first_strict_maximum:
  "calculate_project_similarity now cps None = Inr (0, None)
   \<and> calculate_project_similarity now [] reference = Inr (0, None)
   \<and> (calculate_project_similarity now cps (Some ref) = Inr (score, info) \<and> cps \<noteq> [] \<longrightarrow>
        (info = None \<and> score = 0
         \<and> (\<forall>c \<in> set cps. similarity_of now (norm_client (client ref))
               (normalize_tags (domain_tags ref)) c = Inr (Fin 0)))
        \<or> (\<exists>pre w post v. cps = pre @ w # post
             \<and> similarity_of now (norm_client (client ref))
                  (normalize_tags (domain_tags ref)) w = Inr (Fin v)
             \<and> 0 < v
             \<and> (\<forall>c \<in> set pre. \<exists>u. similarity_of now (norm_client (client ref))
                   (normalize_tags (domain_tags ref)) c = Inr (Fin u) \<and> u < v)
             \<and> (\<forall>c \<in> set post. \<exists>u. similarity_of now (norm_client (client ref))
                   (normalize_tags (domain_tags ref)) c = Inr (Fin u) \<and> u \<le> v)
             \<and> py_round (fmul (Fin v) (Fin 100)) = Inr score
             \<and> info = Some
                 \<lparr>project_name = p_name (cp_project w),
                  project_id = p_id (cp_project w),
                  client_match = (norm_client (client ref) \<noteq> []
                    \<and> norm_client (client (cp_project w)) = norm_client (client ref)),
                  common_tags = card (normalize_tags (domain_tags ref)
                    \<inter> normalize_tags (domain_tags (cp_project w))),
                  total_ref_tags = card (normalize_tags (domain_tags ref)),
                  recency_desc =
                    (case end_date_of (end_year w) (end_month w) of
                       None \<Rightarrow> ''Date non specificate''
                     | Some ym \<Rightarrow>
                         (let months = (fst now - fst ym) * 12 + (snd now - snd ym)
                          in if months \<le> 6 then ''Ultimo semestre''
                             else if months \<le> 18 then ''Ultimo anno e mezzo''
                             else if months \<le> 36 then ''Ultimi 3 anni''
                             else ''Pi'' @ [char_of (249 :: nat)] @ '' di 3 anni fa'')),
                  intensity = intensity_level w,
                  role = cp_role w\<rparr>))"
proof (intro conjI impI)
  show "calculate_project_similarity now cps None = Inr (0, None)"
    by (simp add: calculate_project_similarity_def)
  show "calculate_project_similarity now [] reference = Inr (0, None)"
    by (cases reference) (simp_all add: calculate_project_similarity_def)
next
  define cr where "cr = norm_client (client ref)"
  define tr where "tr = normalize_tags (domain_tags ref)"
  define label where "label = (\<lambda>w :: consultant_project. case end_date_of (end_year w) (end_month w) of
                       None \<Rightarrow> ''Date non specificate''
                     | Some ym \<Rightarrow>
                         (let months = (fst now - fst ym) * 12 + (snd now - snd ym)
                          in if months \<le> 6 then ''Ultimo semestre''
                             else if months \<le> 18 then ''Ultimo anno e mezzo''
                             else if months \<le> 36 then ''Ultimi 3 anni''
                             else ''Pi'' @ [char_of (249 :: nat)] @ '' di 3 anni fa''))"
  assume "calculate_project_similarity now cps (Some ref) = Inr (score, info) \<and> cps \<noteq> []"
  then obtain best where scan: "best_scan now cr tr cps (Fin 0, None) = Inr (best, info)"
    and score: "py_round (fmul best (Fin 100)) = Inr score"
    by (auto simp: calculate_project_similarity_def and_then_Inr cr_def tr_def)
  from best_scan_spec[OF scan]
  show "(info = None \<and> score = 0 \<and> (\<forall>c \<in> set cps. similarity_of now cr tr c = Inr (Fin 0)))
        \<or> (\<exists>pre w post v. cps = pre @ w # post
             \<and> similarity_of now cr tr w = Inr (Fin v) \<and> 0 < v
             \<and> (\<forall>c \<in> set pre. \<exists>u. similarity_of now cr tr c = Inr (Fin u) \<and> u < v)
             \<and> (\<forall>c \<in> set post. \<exists>u. similarity_of now cr tr c = Inr (Fin u) \<and> u \<le> v)
             \<and> py_round (fmul (Fin v) (Fin 100)) = Inr score
             \<and> info = Some
                 \<lparr>project_name = p_name (cp_project w),
                  project_id = p_id (cp_project w),
                  client_match = (cr \<noteq> [] \<and> norm_client (client (cp_project w)) = cr),
                  common_tags = card (tr \<inter> normalize_tags (domain_tags (cp_project w))),
                  total_ref_tags = card tr,
                  recency_desc = label w,
                  intensity = intensity_level w,
                  role = cp_role w\<rparr>)"
  proof
    assume a: "best = Fin 0 \<and> info = None \<and>
      (\<forall>c\<in>set cps. \<exists>u. similarity_of now cr tr c = Inr (Fin u) \<and> u \<le> 0)"
    have "similarity_of now cr tr c = Inr (Fin 0)" if "c \<in> set cps" for c
    proof -
      from a that obtain u where u: "similarity_of now cr tr c = Inr (Fin u)" "u \<le> 0" by blast
      from similarity_range[OF u(1)] have "0 \<le> u" by simp
      with u show ?thesis by simp
    qed
    moreover have "score = 0" using a score round_of_zero by simp
    ultimately show ?thesis using a by blast
  next
    assume "\<exists>pre w post v d. cps = pre @ w # post \<and>
      similarity_of now cr tr w = Inr (Fin v) \<and> 0 < v \<and>
      (\<forall>c\<in>set pre. \<exists>u. similarity_of now cr tr c = Inr (Fin u) \<and> u < v) \<and>
      (\<forall>c\<in>set post. \<exists>u. similarity_of now cr tr c = Inr (Fin u) \<and> u \<le> v) \<and>
      recency_desc_of now w = Inr d \<and> best = Fin v \<and> info = Some (match_info_of cr tr w d)"
    then obtain pre w post v d where b: "cps = pre @ w # post"
      "similarity_of now cr tr w = Inr (Fin v)" "0 < v"
      "\<forall>c\<in>set pre. \<exists>u. similarity_of now cr tr c = Inr (Fin u) \<and> u < v"
      "\<forall>c\<in>set post. \<exists>u. similarity_of now cr tr c = Inr (Fin u) \<and> u \<le> v"
      "recency_desc_of now w = Inr d" "best = Fin v" "info = Some (match_info_of cr tr w d)"
      by blast
    have d: "d = label w" using recency_desc_label[OF b(6)] by (simp add: label_def)
    have i: "info = Some
                 \<lparr>project_name = p_name (cp_project w),
                  project_id = p_id (cp_project w),
                  client_match = (cr \<noteq> [] \<and> norm_client (client (cp_project w)) = cr),
                  common_tags = card (tr \<inter> normalize_tags (domain_tags (cp_project w))),
                  total_ref_tags = card tr,
                  recency_desc = label w,
                  intensity = intensity_level w,
                  role = cp_role w\<rparr>"
      unfolding b(8) match_info_fields d ..
    have s: "py_round (fmul (Fin v) (Fin 100)) = Inr score" using score b(7) by simp
    show ?thesis using b(1-5) s i by blast
  qed
qed

theorem C2_first_strict_maximum_witness:
  "calculate_project_similarity sample_now
     [sample_unrelated, sample_experience, sample_experience_later] (Some sample_reference) =
   Inr (100, Some \<lparr>project_name = ''FS Training'', project_id = 2, client_match = True,
     common_tags = 2, total_ref_tags = 2, recency_desc = ''Ultimo semestre'',
     intensity = Some 5, role = Some ''PM''\<rparr>)
   \<and> similarity_of sample_now ''fs'' {''dei'', ''community''} sample_unrelated = Inr (Fin 0)
   \<and> similarity_of sample_now ''fs'' {''dei'', ''community''} sample_experience = Inr (Fin 1)
   \<and> similarity_of sample_now ''fs'' {''dei'', ''community''} sample_experience_later
       = Inr (Fin 1)
   \<and> cp_role sample_experience = Some ''PM'' \<and> cp_role sample_experience_later = Some ''Lead''"
proof -
  have h: "calculate_project_similarity sample_now
     [sample_unrelated, sample_experience, sample_experience_later] (Some sample_reference) =
     Inr (100, Some \<lparr>project_name = ''FS Training'', project_id = 2, client_match = True,
       common_tags = 2, total_ref_tags = 2, recency_desc = ''Ultimo semestre'',
       intensity = Some 5, role = Some ''PM''\<rparr>)
     \<and> [sample_unrelated, sample_experience, sample_experience_later] \<noteq> []"
    using sample_similarity by simp
  note C2_first_strict_maximum[THEN conjunct2, THEN conjunct2, THEN mp, OF h]
  from this h sample_similarity_unrelated sample_similarity_first sample_similarity_later
  show ?thesis by (simp add: sample_experience_def sample_experience_later_def)
qed

end
